theory Spec2Isabelle
  imports Main
begin

section \<open>Values shared by the store and the provider layer\<close>

text \<open>
  A JavaScript string is the list of the bytes of its UTF-8 encoding, a \<^typ>\<open>string\<close>.
  A thrown value is an element of \<open>error\<close>; a function that may throw returns
  \<open>error + 'a\<close>, with \<open>Inl\<close> for the throw. Console output is diagnostic only and is
  not part of the model.
\<close>

datatype error =
    Error string
  | TypeError string
  | SyntaxError string
  | DOMException string

text \<open>
  A string holding JSON text is represented by what \<open>JSON.parse\<close> makes of it:
  \<open>Encoded v\<close> is the text that \<open>JSON.stringify v\<close> writes and that parses back to \<open>v\<close>,
  \<open>Malformed s\<close> is the text \<open>s\<close> on which \<open>JSON.parse\<close> throws a SyntaxError. The
  empty string is \<open>Malformed []\<close>; it is the only falsy text.
\<close>

datatype 'a json_text = Malformed string | Encoded 'a

definition JSON_parse :: "'a json_text \<Rightarrow> error + 'a" where
  "JSON_parse t = (case t of
      Malformed s \<Rightarrow> Inl (SyntaxError s)
    | Encoded v \<Rightarrow> Inr v)"

definition JSON_stringify :: "'a \<Rightarrow> 'a json_text" where
  "JSON_stringify v = Encoded v"

definition text_truthy :: "'a json_text \<Rightarrow> bool" where
  "text_truthy t = (case t of Malformed s \<Rightarrow> s \<noteq> [] | Encoded v \<Rightarrow> True)"

definition truthy :: "string \<Rightarrow> bool" where
  "truthy s = (s \<noteq> [])"

text \<open>
  A parsed JSON value. An object is the list of its members, each key once. Numbers are
  integers here; no code path reads one.
\<close>

datatype json =
    JNull
  | JBool bool
  | JNum int
  | JStr string
  | JArr "json list"
  | JObj "(string \<times> json) list"

section \<open>Data model (types.ts)\<close>

datatype level = Low | Medium | High
datatype toxicity_level = Toxic | Safe | UnknownToxicity
datatype difficulty_level = Easy | MediumDifficulty | Hard

record PlantAnalysis =
  commonName :: string
  scientificName :: string
  description :: string
  lightRequirement :: level
  wateringRequirement :: level
  temperatureRange :: string
  toxicity :: toxicity_level
  difficulty :: difficulty_level
  funFacts :: "string list"

record PlantNote =
  id_note :: string
  date_note :: string
  text_note :: string

text \<open>
  The field \<open>notes\<close> is declared \<open>PlantNote[]\<close>, but \<open>addNoteToPlant\<close> reads it as
  \<open>plant.notes || []\<close>: a stored entry may lack the field. \<open>None\<close> is the missing field.
\<close>

record UserPlant = PlantAnalysis +
  id_plant :: string
  image_plant :: string
  dateAdded :: string
  isFavorite :: bool
  notes_plant :: "PlantNote list option"

datatype toast_type = ToastSuccess | ToastError | ToastInfo

record ToastMessage =
  type_toast :: toast_type
  text_toast :: string

section \<open>localStorage\<close>

text \<open>
  What \<open>JSON.parse\<close> makes of the text under the journal's key. The declared type of
  \<open>getPlants\<close> promises a collection of entries, but nothing checks the parsed value:
  \<open>Foreign v\<close> is a parsed value of another kind, \<open>null\<close>, a boolean, a number or an object.
  A stored string and an array holding anything but entries are not represented.
\<close>

datatype foreign =
    ForeignNull
  | ForeignBool bool
  | ForeignNum int
  | ForeignObject "(string \<times> json) list"

datatype journal = Collection "UserPlant list" | Foreign foreign

text \<open>
  \<open>denied\<close>: every access throws (storage disabled for the page). \<open>full\<close>: a write
  throws (quota exceeded). \<open>items\<close>: the stored text under each key.
\<close>

record storage =
  denied :: bool
  full :: bool
  items :: "string \<rightharpoonup> journal json_text"

definition getItem :: "storage \<Rightarrow> string \<Rightarrow> error + journal json_text option" where
  "getItem s k = (if denied s then Inl (DOMException ''SecurityError'') else Inr (items s k))"

definition setItem :: "storage \<Rightarrow> string \<Rightarrow> journal json_text \<Rightarrow> error + storage" where
  "setItem s k v =
     (if denied s then Inl (DOMException ''SecurityError'')
      else if full s then Inl (DOMException ''QuotaExceededError'')
      else Inr (s\<lparr>items := (items s)(k \<mapsto> v)\<rparr>))"

section \<open>The journal store (services/storage.ts)\<close>

definition STORAGE_KEY :: string where
  "STORAGE_KEY = ''botanical_diary_plants_v1''"

text \<open>\<open>Array.prototype.findIndex\<close>: the first index whose element satisfies the
  predicate; \<open>None\<close> is the result \<open>-1\<close>.\<close>

fun findIndex :: "('a \<Rightarrow> bool) \<Rightarrow> 'a list \<Rightarrow> nat option" where
  "findIndex P [] = None"
| "findIndex P (x # xs) =
     (if P x then Some 0 else map_option Suc (findIndex P xs))"

text \<open>
  \<open>...plants\<close> inside an array literal: the elements of an array; a foreign value is not
  iterable and the spread throws.
\<close>

definition spread :: "journal \<Rightarrow> error + UserPlant list" where
  "spread plants =
     (case plants of
        Collection ps \<Rightarrow> Inr ps
      | Foreign v \<Rightarrow> Inl (TypeError ''plants is not iterable''))"

text \<open>
  Calling an array method on \<open>plants\<close>: an array has it; \<open>null\<close> has no properties and
  the other foreign values have no such method, so the call throws before the method
  runs.
\<close>

definition array_method :: "string \<Rightarrow> journal \<Rightarrow> error + UserPlant list" where
  "array_method name plants =
     (case plants of
        Collection ps \<Rightarrow> Inr ps
      | Foreign ForeignNull \<Rightarrow>
          Inl (TypeError (''Cannot read properties of null (reading '' @ name @ '')''))
      | Foreign v \<Rightarrow> Inl (TypeError (''plants.'' @ name @ '' is not a function'')))"

text \<open>
  \<open>getPlants\<close> is a \<open>try\<close> block with a \<open>catch\<close> that returns \<open>[]\<close>. The block reads
  the item and, when the item is truthy (neither \<open>null\<close> nor the empty string), parses it
  and returns what the parse gives, unchecked.
\<close>

definition getPlants_try :: "storage \<Rightarrow> error + journal" where
  "getPlants_try s =
     (case getItem s STORAGE_KEY of
        Inl e \<Rightarrow> Inl e
      | Inr None \<Rightarrow> Inr (Collection [])
      | Inr (Some data) \<Rightarrow> if text_truthy data then JSON_parse data else Inr (Collection []))"

definition getPlants :: "storage \<Rightarrow> journal" where
  "getPlants s = (case getPlants_try s of Inl e \<Rightarrow> Collection [] | Inr plants \<Rightarrow> plants)"

definition savePlant :: "storage \<Rightarrow> UserPlant \<Rightarrow> error + storage" where
  "savePlant s plant =
     (let plants = getPlants s
      in case spread plants of
           Inl e \<Rightarrow> Inl e
         | Inr ps \<Rightarrow>
             let updatedPlants = plant # ps
             in setItem s STORAGE_KEY (JSON_stringify (Collection updatedPlants)))"

definition updatePlant :: "storage \<Rightarrow> UserPlant \<Rightarrow> error + storage" where
  "updatePlant s updatedPlant =
     (let plants = getPlants s
      in case array_method ''findIndex'' plants of
           Inl e \<Rightarrow> Inl e
         | Inr ps \<Rightarrow>
             (case findIndex (\<lambda>p. id_plant p = id_plant updatedPlant) ps of
                Some index \<Rightarrow>
                  setItem s STORAGE_KEY (JSON_stringify (Collection (ps[index := updatedPlant])))
              | None \<Rightarrow> Inr s))"

definition deletePlant :: "storage \<Rightarrow> string \<Rightarrow> error + storage" where
  "deletePlant s i =
     (let plants = getPlants s
      in case array_method ''filter'' plants of
           Inl e \<Rightarrow> Inl e
         | Inr ps \<Rightarrow>
             let filtered = filter (\<lambda>p. id_plant p \<noteq> i) ps
             in setItem s STORAGE_KEY (JSON_stringify (Collection filtered)))"

text \<open>\<open>Number.prototype.toString\<close> on a non-negative integer: its decimal digits.\<close>

definition digit_char :: "nat \<Rightarrow> char" where
  "digit_char d = ''0123456789'' ! d"

fun decimal :: "nat \<Rightarrow> string" where
  "decimal n =
     (if n < 10 then [digit_char n]
      else decimal (n div 10) @ [digit_char (n mod 10)])"

declare decimal.simps [simp del]

text \<open>\<open>x || []\<close> on an array that may be missing: an array, even an empty one, is truthy.\<close>

definition or_empty :: "'a list option \<Rightarrow> 'a list" where
  "or_empty x = (case x of None \<Rightarrow> [] | Some xs \<Rightarrow> xs)"

text \<open>
  \<open>nowMs\<close> is what \<open>Date.now()\<close> returns and \<open>nowIso\<close> what \<open>new Date().toISOString()\<close>
  returns at the call. \<open>None\<close> in the result is \<open>null\<close>. The entry at \<open>index\<close> exists
  because \<open>findIndex\<close> returned it.
\<close>

definition addNoteToPlant ::
  "nat \<Rightarrow> string \<Rightarrow> storage \<Rightarrow> string \<Rightarrow> string \<Rightarrow> error + (UserPlant option \<times> storage)" where
  "addNoteToPlant nowMs nowIso s plantId noteText =
     (let plants = getPlants s
      in case array_method ''findIndex'' plants of
           Inl e \<Rightarrow> Inl e
         | Inr ps \<Rightarrow>
             (case findIndex (\<lambda>p. id_plant p = plantId) ps of
                None \<Rightarrow> Inr (None, s)
              | Some index \<Rightarrow>
                  let newNote = \<lparr>id_note = decimal nowMs, date_note = nowIso,
                                 text_note = noteText\<rparr>;
                      plant = ps ! index;
                      plant = plant\<lparr>notes_plant := Some (newNote # or_empty (notes_plant plant))\<rparr>;
                      ps = ps[index := plant]
                  in (case setItem s STORAGE_KEY (JSON_stringify (Collection ps)) of
                        Inl e \<Rightarrow> Inl e
                      | Inr s' \<Rightarrow> Inr (Some plant, s'))))"

definition toggleFavoritePlant ::
  "storage \<Rightarrow> string \<Rightarrow> error + (UserPlant option \<times> storage)" where
  "toggleFavoritePlant s plantId =
     (let plants = getPlants s
      in case array_method ''findIndex'' plants of
           Inl e \<Rightarrow> Inl e
         | Inr ps \<Rightarrow>
             (case findIndex (\<lambda>p. id_plant p = plantId) ps of
                None \<Rightarrow> Inr (None, s)
              | Some index \<Rightarrow>
                  let plant = ps ! index;
                      plant = plant\<lparr>isFavorite := (\<not> isFavorite plant)\<rparr>;
                      ps = ps[index := plant]
                  in (case setItem s STORAGE_KEY (JSON_stringify (Collection ps)) of
                        Inl e \<Rightarrow> Inl e
                      | Inr s' \<Rightarrow> Inr (Some (ps ! index), s'))))"

section \<open>JSON values returned by the backends\<close>

text \<open>
  What \<open>JSON.parse\<close> returns for a backend's answer is untyped; the code casts it to
  \<open>PlantAnalysis\<close> without looking at it. The model keeps it as a JSON value.
\<close>

text \<open>
  Reading the property \<open>k\<close> of a parsed value: \<open>null\<close> throws a TypeError, an object gives the member or \<open>undefined\<close>
  (\<open>None\<close>), any other value has no such property.
\<close>

fun js_prop :: "json \<Rightarrow> string \<Rightarrow> error + json option" where
  "js_prop JNull k = Inl (TypeError (''Cannot read properties of null (reading '' @ k @ '')''))"
| "js_prop (JObj members) k = Inr (map_of members k)"
| "js_prop v k = Inr None"

text \<open>The interface \<open>PlantAnalysis\<close> of types.ts as a test on a JSON value.\<close>

definition is_string :: "json option \<Rightarrow> bool" where
  "is_string v = (case v of Some (JStr s) \<Rightarrow> True | _ \<Rightarrow> False)"

definition is_one_of :: "string list \<Rightarrow> json option \<Rightarrow> bool" where
  "is_one_of choices v = (case v of Some (JStr s) \<Rightarrow> s \<in> set choices | _ \<Rightarrow> False)"

definition is_string_array :: "json option \<Rightarrow> bool" where
  "is_string_array v =
     (case v of Some (JArr xs) \<Rightarrow> list_all (\<lambda>x. is_string (Some x)) xs | _ \<Rightarrow> False)"

definition is_PlantAnalysis :: "json \<Rightarrow> bool" where
  "is_PlantAnalysis v =
     (case v of
        JObj members \<Rightarrow>
          is_string (map_of members ''commonName'') \<and>
          is_string (map_of members ''scientificName'') \<and>
          is_string (map_of members ''description'') \<and>
          is_one_of [''low'', ''medium'', ''high''] (map_of members ''lightRequirement'') \<and>
          is_one_of [''low'', ''medium'', ''high''] (map_of members ''wateringRequirement'') \<and>
          is_string (map_of members ''temperatureRange'') \<and>
          is_one_of [''toxic'', ''safe'', ''unknown''] (map_of members ''toxicity'') \<and>
          is_one_of [''easy'', ''medium'', ''hard''] (map_of members ''difficulty'') \<and>
          is_string_array (map_of members ''funFacts'')
      | _ \<Rightarrow> False)"

section \<open>The two backends as seen from the code\<close>

subsection \<open>Requests and answers of the OpenAI endpoints\<close>

datatype chat_part = TextPart string | ImageUrlPart string

datatype chat_content = SystemText string | UserParts "chat_part list"

record chat_message =
  role :: string
  content_message :: chat_content

record chat_request =
  model_chat :: string
  messages :: "chat_message list"
  response_format_chat :: string

record image_request =
  model_image :: string
  prompt_image :: string
  n_image :: nat
  size_image :: string
  response_format_image :: string

datatype openai_payload = ChatPayload chat_request | ImagePayload image_request

record http_request =
  url :: string
  method_http :: string
  headers :: "(string \<times> string) list"
  body :: "openai_payload json_text"

text \<open>
  What \<open>response.json()\<close> resolves to, by the members the code reads:
  \<open>ErrorReply m\<close> has \<open>error?.message = m\<close>; \<open>ChatReply cs\<close> has \<open>choices[i].message.content\<close>
  equal to the \<open>i\<close>-th text of \<open>cs\<close>; \<open>ImageReply bs\<close> has \<open>data[i].b64_json\<close> equal to the
  \<open>i\<close>-th string of \<open>bs\<close>. Reading a member that the reply does not have gives
  \<open>undefined\<close>.
\<close>

datatype openai_reply =
    ErrorReply "string option"
  | ChatReply "json json_text list"
  | ImageReply "string list"

record http_response =
  ok :: bool
  statusText :: string
  json_response :: "error + openai_reply"

subsection \<open>Requests and answers of the Gemini client\<close>

datatype schema =
    StringSchema "string option" "string list"
  | ArraySchema schema "string option"
  | ObjectSchema "(string \<times> schema) list" "string list"

datatype gemini_part = InlineData string string | TextData string

record gemini_config =
  responseMimeType :: string
  responseSchema :: schema
  temperature_tenths :: nat

record gemini_request =
  model_gemini :: string
  contents :: "gemini_part list"
  config :: "gemini_config option"

record inline_data =
  mimeType :: "string option"
  data_inline :: "string option"

record response_part =
  inlineData :: "inline_data option"

text \<open>
  \<open>content_candidate\<close>: \<open>None\<close> is a candidate without \<open>content\<close>, \<open>Some None\<close> a content
  without \<open>parts\<close>.
\<close>

record gemini_candidate =
  content_candidate :: "response_part list option option"

record gemini_response =
  text_response :: "json json_text option"
  candidates :: "gemini_candidate list option"

subsection \<open>The network\<close>

text \<open>
  The two services answer as they please: \<open>fetch\<close> and \<open>generateContent\<close> are functions
  from the request to a rejection or an answer. Every function of the provider layer
  returns the list of calls it made together with its result.
\<close>

record network =
  fetch :: "http_request \<Rightarrow> error + http_response"
  generateContent :: "gemini_request \<Rightarrow> error + gemini_response"

datatype call = OpenAICall http_request | GeminiCall "string option" gemini_request

datatype backend = OpenAI | Gemini

fun backend_of :: "call \<Rightarrow> backend" where
  "backend_of (OpenAICall req) = OpenAI"
| "backend_of (GeminiCall apiKey req) = Gemini"

section \<open>The provider layer (services/ai.ts)\<close>

subsection \<open>Configuration\<close>

text \<open>
  The two keys are module constants: \<open>process.env\<close> is read once, when the module is
  loaded. \<open>geminiAi\<close> is the client built at load with \<open>GEMINI_API_KEY\<close>; the model keeps the
  key it was built with.
\<close>

type_synonym env = "string \<rightharpoonup> string"

record ai_module =
  OPENAI_API_KEY :: "string option"
  GEMINI_API_KEY :: "string option"
  geminiAi :: "string option"

definition load_ai_module :: "env \<Rightarrow> ai_module" where
  "load_ai_module e =
     \<lparr>OPENAI_API_KEY = e ''API_KEY_OPENAI'',
      GEMINI_API_KEY = e ''API_KEY'',
      geminiAi = e ''API_KEY''\<rparr>"

text \<open>A running process: the environment as it is now, and the module as it was loaded.\<close>

record process =
  env_process :: env
  ai :: ai_module

definition start_process :: "env \<Rightarrow> process" where
  "start_process e = \<lparr>env_process = e, ai = load_ai_module e\<rparr>"

definition set_env :: "process \<Rightarrow> string \<Rightarrow> string option \<Rightarrow> process" where
  "set_env p k v = p\<lparr>env_process := (env_process p)(k := v)\<rparr>"

text \<open>Truthiness of a value that is a string or \<open>undefined\<close>.\<close>

definition key_truthy :: "string option \<Rightarrow> bool" where
  "key_truthy k = (case k of None \<Rightarrow> False | Some v \<Rightarrow> truthy v)"

text \<open>A string or \<open>undefined\<close> inside a template literal.\<close>

definition template :: "string option \<Rightarrow> string" where
  "template v = (case v of None \<Rightarrow> ''undefined'' | Some s \<Rightarrow> s)"

subsection \<open>Shared definitions\<close>

definition quoted :: "string \<Rightarrow> string" where
  "quoted s = [CHR 0x22] @ s @ [CHR 0x22]"

definition text_lines :: "string list \<Rightarrow> string" where
  "text_lines ls = concat (map (\<lambda>l. l @ [CHR 0x0A]) ls)"

definition PLANT_JSON_STRUCTURE :: string where
  "PLANT_JSON_STRUCTURE = text_lines
     [[],
      ''{'',
      ''  '' @ quoted ''commonName'' @ '': '' @ quoted ''String (Spanish)'' @ '','',
      ''  '' @ quoted ''scientificName'' @ '': '' @ quoted ''String (Latin)'' @ '','',
      ''  '' @ quoted ''description'' @ '': '' @ quoted ''String (Spanish, max 2 sentences)'' @ '','',
      ''  '' @ quoted ''lightRequirement'' @ '': '' @ quoted ''low | medium | high'' @ '','',
      ''  '' @ quoted ''wateringRequirement'' @ '': '' @ quoted ''low | medium | high'' @ '','',
      ''  '' @ quoted ''temperatureRange'' @ '': ''
           @ quoted (''String (e.g. '' @ [CHR 0x27] @ ''18-24'' @ [CHR 0xC2, CHR 0xB0] @ ''C''
                     @ [CHR 0x27] @ '')'') @ '','',
      ''  '' @ quoted ''toxicity'' @ '': '' @ quoted ''toxic | safe | unknown'' @ '','',
      ''  '' @ quoted ''difficulty'' @ '': '' @ quoted ''easy | medium | hard'' @ '','',
      ''  '' @ quoted ''funFacts'' @ '': ['' @ quoted ''String (Spanish)'' @ '', ''
           @ quoted ''String (Spanish)'' @ '']'',
      ''}'']"

definition NO_PLANT_MESSAGE :: string where
  "NO_PLANT_MESSAGE = ''No se pudo identificar una planta en esta imagen.''"

text \<open>
  The test both backends apply to the parsed answer:
  \<open>x.commonName === 'Unknown' || x.scientificName === 'Unknown'\<close>, then the throw. The
  second property is read only when the first comparison is false.
\<close>

definition reject_unknown :: "json \<Rightarrow> error + json" where
  "reject_unknown parsed =
     (case js_prop parsed ''commonName'' of
        Inl e \<Rightarrow> Inl e
      | Inr cn \<Rightarrow>
          if cn = Some (JStr ''Unknown'') then Inl (Error NO_PLANT_MESSAGE)
          else (case js_prop parsed ''scientificName'' of
                  Inl e \<Rightarrow> Inl e
                | Inr sn \<Rightarrow>
                    if sn = Some (JStr ''Unknown'') then Inl (Error NO_PLANT_MESSAGE)
                    else Inr parsed))"

subsection \<open>OpenAI implementation\<close>

definition identify_system_prompt :: string where
  "identify_system_prompt =
     ''You are a botanical expert. Identify the plant in the image. '' @ [CHR 0x0A] @
     ''          Return ONLY a JSON object strictly following this structure: '' @
     PLANT_JSON_STRUCTURE @ ''. '' @ [CHR 0x0A] @
     ''          If the image is not a plant, return commonName: '' @
     [CHR 0x27] @ ''Unknown'' @ [CHR 0x27] @ '' and scientificName: '' @
     [CHR 0x27] @ ''Unknown'' @ [CHR 0x27] @ ''.''"

definition openai_headers :: "ai_module \<Rightarrow> (string \<times> string) list" where
  "openai_headers m =
     [(''Content-Type'', ''application/json''),
      (''Authorization'', ''Bearer '' @ template (OPENAI_API_KEY m))]"

definition identify_request :: "ai_module \<Rightarrow> string \<Rightarrow> http_request" where
  "identify_request m base64Image =
     \<lparr>url = ''https://api.openai.com/v1/chat/completions'',
      method_http = ''POST'',
      headers = openai_headers m,
      body = JSON_stringify (ChatPayload
        \<lparr>model_chat = ''gpt-4o'',
         messages =
           [\<lparr>role = ''system'', content_message = SystemText identify_system_prompt\<rparr>,
            \<lparr>role = ''user'',
             content_message = UserParts [TextPart ''Identify this plant.'', ImageUrlPart base64Image]\<rparr>],
         response_format_chat = ''json_object''\<rparr>)\<rparr>"

text \<open>\<open>err.error?.message || response.statusText\<close>\<close>

definition error_message_or :: "openai_reply \<Rightarrow> string \<Rightarrow> string" where
  "error_message_or err fallback =
     (case err of
        ErrorReply (Some msg) \<Rightarrow> if truthy msg then msg else fallback
      | _ \<Rightarrow> fallback)"

text \<open>\<open>data.choices[0].message.content\<close>: without a first choice the read throws.\<close>

definition first_choice_content :: "openai_reply \<Rightarrow> error + json json_text" where
  "first_choice_content reply =
     (case reply of
        ChatReply (c # cs) \<Rightarrow> Inr c
      | _ \<Rightarrow> Inl (TypeError ''Cannot read properties of undefined''))"

text \<open>\<open>data.data[0].b64_json\<close>\<close>

definition first_b64_json :: "openai_reply \<Rightarrow> error + string" where
  "first_b64_json reply =
     (case reply of
        ImageReply (b # bs) \<Rightarrow> Inr b
      | _ \<Rightarrow> Inl (TypeError ''Cannot read properties of undefined''))"

definition not_ok_error :: "http_response \<Rightarrow> error" where
  "not_ok_error response =
     (case json_response response of
        Inl e \<Rightarrow> e
      | Inr err \<Rightarrow> Error (''OpenAI Error: '' @ error_message_or err (statusText response)))"

definition identifyWithOpenAI :: "ai_module \<Rightarrow> network \<Rightarrow> string \<Rightarrow> call list \<times> (error + json)" where
  "identifyWithOpenAI m net base64Image =
     (if \<not> key_truthy (OPENAI_API_KEY m) then ([], Inl (Error ''OpenAI API Key not found''))
      else
        let request = identify_request m base64Image
        in ([OpenAICall request],
            case fetch net request of
              Inl e \<Rightarrow> Inl e
            | Inr response \<Rightarrow>
                if \<not> ok response then Inl (not_ok_error response)
                else (case json_response response of
                        Inl e \<Rightarrow> Inl e
                      | Inr data \<Rightarrow>
                          (case first_choice_content data of
                             Inl e \<Rightarrow> Inl e
                           | Inr text \<Rightarrow>
                               (case JSON_parse text of
                                  Inl e \<Rightarrow> Inl e
                                | Inr content \<Rightarrow> reject_unknown content)))))"

definition OPENAI_STYLE :: string where
  "OPENAI_STYLE = ''. Photorealistic, high quality, botanical photography style, isolated subject.''"

definition image_request_for :: "ai_module \<Rightarrow> string \<Rightarrow> http_request" where
  "image_request_for m prompt =
     \<lparr>url = ''https://api.openai.com/v1/images/generations'',
      method_http = ''POST'',
      headers = openai_headers m,
      body = JSON_stringify (ImagePayload
        \<lparr>model_image = ''dall-e-3'',
         prompt_image = prompt @ OPENAI_STYLE,
         n_image = 1,
         size_image = ''1024x1024'',
         response_format_image = ''b64_json''\<rparr>)\<rparr>"

definition generateImageWithOpenAI :: "ai_module \<Rightarrow> network \<Rightarrow> string \<Rightarrow> call list \<times> (error + string)" where
  "generateImageWithOpenAI m net prompt =
     (if \<not> key_truthy (OPENAI_API_KEY m) then ([], Inl (Error ''OpenAI API Key not found''))
      else
        let request = image_request_for m prompt
        in ([OpenAICall request],
            case fetch net request of
              Inl e \<Rightarrow> Inl e
            | Inr response \<Rightarrow>
                if \<not> ok response then Inl (not_ok_error response)
                else (case json_response response of
                        Inl e \<Rightarrow> Inl e
                      | Inr data \<Rightarrow>
                          (case first_b64_json data of
                             Inl e \<Rightarrow> Inl e
                           | Inr b64 \<Rightarrow> Inr (''data:image/png;base64,'' @ b64)))))"

subsection \<open>Gemini implementation\<close>

definition plantSchema :: schema where
  "plantSchema = ObjectSchema
     [(''commonName'', StringSchema (Some ''Common name of the plant in Spanish.'') []),
      (''scientificName'', StringSchema (Some ''Scientific Latin name.'') []),
      (''description'', StringSchema
         (Some ''A short, engaging description of the plant in Spanish (max 2 sentences).'') []),
      (''lightRequirement'', StringSchema None [''low'', ''medium'', ''high'']),
      (''wateringRequirement'', StringSchema None [''low'', ''medium'', ''high'']),
      (''temperatureRange'', StringSchema
         (Some (''Ideal temperature range (e.g., '' @ [CHR 0x27] @ ''18-24''
                @ [CHR 0xC2, CHR 0xB0] @ ''C'' @ [CHR 0x27] @ '').'')) []),
      (''toxicity'', StringSchema None [''toxic'', ''safe'', ''unknown'']),
      (''difficulty'', StringSchema None [''easy'', ''medium'', ''hard'']),
      (''funFacts'', ArraySchema (StringSchema None [])
         (Some ''2 interesting fun facts about this plant in Spanish.''))]
     [''commonName'', ''scientificName'', ''lightRequirement'', ''wateringRequirement'',
      ''difficulty'', ''toxicity'', ''funFacts'', ''description'']"

text \<open>The rest of \<open>s\<close> after the prefix \<open>p\<close>, when \<open>s\<close> starts with \<open>p\<close>.\<close>

fun after_prefix :: "string \<Rightarrow> string \<Rightarrow> string option" where
  "after_prefix [] s = Some s"
| "after_prefix (p # ps) [] = None"
| "after_prefix (p # ps) (c # cs) = (if p = c then after_prefix ps cs else None)"

text \<open>
  The first alternative of the group, in order, after which the rest of the pattern
  matches; the result is what follows the whole match.
\<close>

fun after_alternative :: "string list \<Rightarrow> string \<Rightarrow> string \<Rightarrow> string option" where
  "after_alternative [] tail s = None"
| "after_alternative (a # as) tail s =
     (case after_prefix (a @ tail) s of
        Some r \<Rightarrow> Some r
      | None \<Rightarrow> after_alternative as tail s)"

text \<open>\<open>base64Image.replace(/^data:image\/(png|jpeg|jpg|webp);base64,/, "")\<close>\<close>

definition strip_data_prefix :: "string \<Rightarrow> string" where
  "strip_data_prefix base64Image =
     (case after_prefix ''data:image/'' base64Image of
        None \<Rightarrow> base64Image
      | Some r \<Rightarrow>
          (case after_alternative [''png'', ''jpeg'', ''jpg'', ''webp''] '';base64,'' r of
             None \<Rightarrow> base64Image
           | Some payload \<Rightarrow> payload))"

definition GEMINI_IDENTIFY_TEXT :: string where
  "GEMINI_IDENTIFY_TEXT =
     ''Identify this plant. Provide the response in JSON format. '' @
     ''Translate all text fields to Spanish. If the image is NOT a plant, '' @
     ''return a JSON with commonName as '' @ [CHR 0x27] @ ''Unknown'' @ [CHR 0x27] @
     '' and scientificName as '' @ [CHR 0x27] @ ''Unknown'' @ [CHR 0x27] @ ''.''"

definition gemini_identify_request :: "string \<Rightarrow> gemini_request" where
  "gemini_identify_request base64Image =
     \<lparr>model_gemini = ''gemini-2.5-flash'',
      contents = [InlineData ''image/jpeg'' (strip_data_prefix base64Image),
                  TextData GEMINI_IDENTIFY_TEXT],
      config = Some \<lparr>responseMimeType = ''application/json'',
                      responseSchema = plantSchema,
                      temperature_tenths = 4\<rparr>\<rparr>"

text \<open>
  The \<open>catch\<close> logs and throws the error it caught, so every throw of the \<open>try\<close> block
  is the function's throw.
\<close>

definition identifyWithGemini :: "ai_module \<Rightarrow> network \<Rightarrow> string \<Rightarrow> call list \<times> (error + json)" where
  "identifyWithGemini m net base64Image =
     (let request = gemini_identify_request base64Image
      in ([GeminiCall (geminiAi m) request],
          case generateContent net request of
            Inl e \<Rightarrow> Inl e
          | Inr response \<Rightarrow>
              (case text_response response of
                 None \<Rightarrow> Inl (Error ''No response from Gemini'')
               | Some text \<Rightarrow>
                   if \<not> text_truthy text then Inl (Error ''No response from Gemini'')
                   else (case JSON_parse text of
                           Inl e \<Rightarrow> Inl e
                         | Inr parsed \<Rightarrow> reject_unknown parsed))))"

definition gemini_image_request :: "string \<Rightarrow> gemini_request" where
  "gemini_image_request prompt =
     \<lparr>model_gemini = ''gemini-2.5-flash-image'',
      contents = [TextData prompt],
      config = None\<rparr>"

text \<open>The loop over the parts: the first part with inline data that is not empty.\<close>

fun first_inline_image :: "response_part list \<Rightarrow> string option" where
  "first_inline_image [] = None"
| "first_inline_image (part # parts) =
     (case inlineData part of
        Some inline \<Rightarrow>
          if key_truthy (data_inline inline)
          then Some (''data:'' @ template (mimeType inline) @ '';base64,'' @ template (data_inline inline))
          else first_inline_image parts
      | None \<Rightarrow> first_inline_image parts)"

definition NO_IMAGE_MESSAGE :: string where
  "NO_IMAGE_MESSAGE = ''No se pudo generar la imagen.''"

definition generateImageWithGemini :: "ai_module \<Rightarrow> network \<Rightarrow> string \<Rightarrow> call list \<times> (error + string)" where
  "generateImageWithGemini m net prompt =
     (let request = gemini_image_request prompt
      in ([GeminiCall (geminiAi m) request],
          case generateContent net request of
            Inl e \<Rightarrow> Inl e
          | Inr response \<Rightarrow>
              (case candidates response of
                 None \<Rightarrow> Inl (Error NO_IMAGE_MESSAGE)
               | Some [] \<Rightarrow> Inl (TypeError ''Cannot read properties of undefined (reading content)'')
               | Some (candidate # rest) \<Rightarrow>
                   (case content_candidate candidate of
                      None \<Rightarrow> Inl (TypeError ''Cannot read properties of undefined (reading parts)'')
                    | Some None \<Rightarrow> Inl (Error NO_IMAGE_MESSAGE)
                    | Some (Some parts) \<Rightarrow>
                        (case first_inline_image parts of
                           Some uri \<Rightarrow> Inr uri
                         | None \<Rightarrow> Inl (Error NO_IMAGE_MESSAGE))))))"

subsection \<open>Main exports (provider switching)\<close>

definition identifyPlant :: "ai_module \<Rightarrow> network \<Rightarrow> string \<Rightarrow> call list \<times> (error + json)" where
  "identifyPlant m net base64Image =
     (if key_truthy (OPENAI_API_KEY m) then identifyWithOpenAI m net base64Image
      else identifyWithGemini m net base64Image)"

definition generatePlantImage :: "ai_module \<Rightarrow> network \<Rightarrow> string \<Rightarrow> call list \<times> (error + string)" where
  "generatePlantImage m net prompt =
     (if key_truthy (OPENAI_API_KEY m) then generateImageWithOpenAI m net prompt
      else generateImageWithGemini m net prompt)"

section \<open>The callers in the App component\<close>

text \<open>
  \<open>String.prototype.trim\<close> removes white space and line terminators from both ends. A
  string is the byte list of its UTF-8 encoding, so each such character is the byte
  sequence listed here: U+0009 to U+000D, U+0020, U+00A0, U+1680, U+2000 to U+200A,
  U+2028, U+2029, U+202F, U+205F, U+3000 and U+FEFF.
\<close>

definition js_whitespace :: "string list" where
  "js_whitespace =
     [[CHR 0x09], [CHR 0x0A], [CHR 0x0B], [CHR 0x0C], [CHR 0x0D], [CHR 0x20],
      [CHR 0xC2, CHR 0xA0],
      [CHR 0xE1, CHR 0x9A, CHR 0x80],
      [CHR 0xE2, CHR 0x80, CHR 0x80], [CHR 0xE2, CHR 0x80, CHR 0x81],
      [CHR 0xE2, CHR 0x80, CHR 0x82], [CHR 0xE2, CHR 0x80, CHR 0x83],
      [CHR 0xE2, CHR 0x80, CHR 0x84], [CHR 0xE2, CHR 0x80, CHR 0x85],
      [CHR 0xE2, CHR 0x80, CHR 0x86], [CHR 0xE2, CHR 0x80, CHR 0x87],
      [CHR 0xE2, CHR 0x80, CHR 0x88], [CHR 0xE2, CHR 0x80, CHR 0x89],
      [CHR 0xE2, CHR 0x80, CHR 0x8A],
      [CHR 0xE2, CHR 0x80, CHR 0xA8], [CHR 0xE2, CHR 0x80, CHR 0xA9],
      [CHR 0xE2, CHR 0x80, CHR 0xAF],
      [CHR 0xE2, CHR 0x81, CHR 0x9F],
      [CHR 0xE3, CHR 0x80, CHR 0x80],
      [CHR 0xEF, CHR 0xBB, CHR 0xBF]]"

text \<open>The length of the first sequence of \<open>ws\<close> that \<open>s\<close> starts with, or 0.\<close>

fun match_length :: "string list \<Rightarrow> string \<Rightarrow> nat" where
  "match_length [] s = 0"
| "match_length (w # ws) s =
     (if take (length w) s = w then length w else match_length ws s)"

text \<open>
  Drops from the front of \<open>s\<close> every sequence of \<open>ws\<close>; \<open>k\<close> counts the bytes of the
  current sequence that are still to drop.
\<close>

fun drop_matches :: "string list \<Rightarrow> nat \<Rightarrow> string \<Rightarrow> string" where
  "drop_matches ws k [] = []"
| "drop_matches ws k (c # cs) =
     (if 0 < k then drop_matches ws (k - 1) cs
      else (let n = match_length ws (c # cs)
            in if n = 0 then c # cs else drop_matches ws (n - 1) cs))"

definition js_trim :: "string \<Rightarrow> string" where
  "js_trim s =
     rev (drop_matches (map rev js_whitespace) 0 (rev (drop_matches js_whitespace 0 s)))"

text \<open>
  The state the two handlers read and write. The timer that clears the toast three
  seconds later is not part of the model.
\<close>

record app =
  plants :: "UserPlant list"
  selectedPlant :: "UserPlant option"
  generating :: bool
  prompt_text :: string
  generatedImage :: "string option"
  toast :: "ToastMessage option"

definition showToast :: "app \<Rightarrow> toast_type \<Rightarrow> string \<Rightarrow> app" where
  "showToast a ty msg = a\<lparr>toast := Some \<lparr>type_toast = ty, text_toast = msg\<rparr>\<rparr>"

definition CALLER_STYLE :: string where
  "CALLER_STYLE = '' . Photorealistic, high quality, botanical photography style.''"

definition handleGenerateImage :: "ai_module \<Rightarrow> network \<Rightarrow> app \<Rightarrow> call list \<times> app" where
  "handleGenerateImage m net a =
     (if \<not> truthy (js_trim (prompt_text a)) then ([], a)
      else
        let a = a\<lparr>generating := True, generatedImage := None\<rparr>;
            (calls, result) = generatePlantImage m net (prompt_text a @ CALLER_STYLE);
            a = (case result of
                   Inr base64 \<Rightarrow> a\<lparr>generatedImage := Some base64\<rparr>
                 | Inl e \<Rightarrow> showToast a ToastError
                             ''No se pudo generar la imagen. Intenta de nuevo.'')
        in (calls, a\<lparr>generating := False\<rparr>))"

definition NOTE_ADDED :: string where
  "NOTE_ADDED = ''Nota a'' @ [CHR 0xE2, CHR 0x88, CHR 0x9A, CHR 0xC2, CHR 0xB1] @ ''adida''"

definition handleAddNote ::
  "nat \<Rightarrow> string \<Rightarrow> app \<times> storage \<Rightarrow> string \<Rightarrow> error + (app \<times> storage)" where
  "handleAddNote nowMs nowIso state noteText =
     (let (a, s) = state
      in case selectedPlant a of
           None \<Rightarrow> Inr (a, s)
         | Some selected \<Rightarrow>
             if \<not> truthy (js_trim noteText) then Inr (a, s)
             else (case addNoteToPlant nowMs nowIso s (id_plant selected) noteText of
                     Inl e \<Rightarrow> Inl e
                   | Inr (None, s') \<Rightarrow> Inr (a, s')
                   | Inr (Some updated, s') \<Rightarrow>
                       Inr (showToast
                              (a\<lparr>plants := map (\<lambda>p. if id_plant p = id_plant updated
                                                      then updated else p) (plants a),
                                 selectedPlant := Some updated\<rparr>)
                              ToastSuccess NOTE_ADDED,
                            s')))"

section \<open>Sample data\<close>

definition monstera :: UserPlant where
  "monstera =
     \<lparr>commonName = ''Costilla de Adan'', scientificName = ''Monstera deliciosa'',
      description = ''Planta tropical de hojas grandes.'',
      lightRequirement = Medium, wateringRequirement = Medium,
      temperatureRange = ''18-27'', toxicity = Toxic, difficulty = Easy,
      funFacts = [''Sus hojas se perforan al crecer.'', ''Da un fruto comestible.''],
      id_plant = ''1'', image_plant = ''data:image/png;base64,iVBORw0KGgo='',
      dateAdded = ''2024-05-01T10:00:00.000Z'', isFavorite = False,
      notes_plant = Some []\<rparr>"

definition journal0 :: storage where
  "journal0 = \<lparr>denied = False, full = False,
                items = [STORAGE_KEY \<mapsto> Encoded (Collection [monstera])]\<rparr>"

definition journal1 :: storage where
  "journal1 = \<lparr>denied = False, full = False,
                items = [STORAGE_KEY \<mapsto> Encoded (Collection [monstera, monstera])]\<rparr>"

definition journal_corrupt :: storage where
  "journal_corrupt = \<lparr>denied = False, full = False,
                       items = [STORAGE_KEY \<mapsto> Malformed ''[{commonName:''] \<rparr>"

definition journal_null :: storage where
  "journal_null = \<lparr>denied = False, full = False,
                    items = [STORAGE_KEY \<mapsto> Encoded (Foreign ForeignNull)]\<rparr>"

definition app0 :: app where
  "app0 = \<lparr>plants = [monstera], selectedPlant = Some monstera, generating = False,
            prompt_text = ''a red rose'', generatedImage = None, toast = None\<rparr>"

definition blank_note :: PlantNote where
  "blank_note = \<lparr>id_note = ''1714557600000'', date_note = ''2024-05-01T10:00:00.000Z'',
                  text_note = []\<rparr>"

definition sample_image :: string where
  "sample_image = ''data:image/jpeg;base64,/9j/4AAQSkZJRg==''"

definition module_openai :: ai_module where
  "module_openai = load_ai_module [''API_KEY_OPENAI'' \<mapsto> ''sk-test'', ''API_KEY'' \<mapsto> ''g-test'']"

definition module_gemini :: ai_module where
  "module_gemini = load_ai_module [''API_KEY'' \<mapsto> ''g-test'']"

definition unknown_answer :: json where
  "unknown_answer =
     JObj [(''commonName'', JStr ''Unknown''), (''scientificName'', JStr ''Unknown''),
           (''description'', JStr ''No es una planta.'')]"

definition half_unknown_answer :: json where
  "half_unknown_answer =
     JObj [(''commonName'', JStr ''Rosa''), (''scientificName'', JStr ''Unknown'')]"

definition monstera_answer :: json where
  "monstera_answer =
     JObj [(''commonName'', JStr ''Costilla de Adan''),
           (''scientificName'', JStr ''Monstera deliciosa''),
           (''description'', JStr ''Planta tropical de hojas grandes.''),
           (''lightRequirement'', JStr ''medium''),
           (''wateringRequirement'', JStr ''medium''),
           (''temperatureRange'', JStr ''18-27''),
           (''toxicity'', JStr ''toxic''),
           (''difficulty'', JStr ''easy''),
           (''funFacts'', JArr [JStr ''Sus hojas se perforan al crecer.'',
                                JStr ''Da un fruto comestible.''])]"

text \<open>A network on which both backends answer every identification with the text of \<open>v\<close>.\<close>

definition answering :: "json \<Rightarrow> network" where
  "answering v =
     \<lparr>fetch = (\<lambda>request. Inr \<lparr>ok = True, statusText = ''OK'',
                                 json_response = Inr (ChatReply [Encoded v])\<rparr>),
      generateContent = (\<lambda>request. Inr \<lparr>text_response = Some (Encoded v),
                                           candidates = None\<rparr>)\<rparr>"

text \<open>A network on which both backends answer every generation with one image.\<close>

definition painting :: network where
  "painting =
     \<lparr>fetch = (\<lambda>request. Inr \<lparr>ok = True, statusText = ''OK'',
                                 json_response = Inr (ImageReply [''iVBORw0KGgo=''])\<rparr>),
      generateContent = (\<lambda>request. Inr
        \<lparr>text_response = None,
         candidates = Some [\<lparr>content_candidate = Some (Some
           [\<lparr>inlineData = None\<rparr>,
            \<lparr>inlineData = Some \<lparr>mimeType = Some ''image/png'',
                                 data_inline = Some ''iVBORw0KGgo=''\<rparr>\<rparr>])\<rparr>]\<rparr>)\<rparr>"

section \<open>Notions the claims are stated with\<close>

text \<open>
  The selection as the specification words it: the backend is chosen by the presence of
  the secondary credential in the configuration as it is when the call is made.
\<close>

definition spec_selected_backend :: "env \<Rightarrow> backend" where
  "spec_selected_backend e = (if key_truthy (e ''API_KEY_OPENAI'') then OpenAI else Gemini)"

text \<open>The environment changes of a running process, oldest first.\<close>

definition change_env :: "(string \<times> string option) list \<Rightarrow> process \<Rightarrow> process" where
  "change_env changes p = fold (\<lambda>(k, v) q. set_env q k v) changes p"

text \<open>The prompt texts a call carries to its backend.\<close>

fun dispatched_prompts :: "call \<Rightarrow> string list" where
  "dispatched_prompts (OpenAICall request) =
     (case body request of
        Encoded (ImagePayload r) \<Rightarrow> [prompt_image r]
      | _ \<Rightarrow> [])"
| "dispatched_prompts (GeminiCall apiKey request) =
     concat (map (\<lambda>part. case part of TextData t \<Rightarrow> [t] | InlineData mt d \<Rightarrow> [])
                 (contents request))"

section \<open>Basic facts about the store\<close>

lemma findIndex_Some_iff:
  "findIndex P xs = Some i \<longleftrightarrow> i < length xs \<and> P (xs ! i) \<and> (\<forall>j<i. \<not> P (xs ! j))"
proof (induction xs arbitrary: i)
  case Nil
  then show ?case by simp
next
  case (Cons x xs)
  show ?case
  proof (cases "P x")
    case True
    then show ?thesis by (cases i) auto
  next
    case False
    then show ?thesis
      by (cases i) (auto simp: Cons.IH less_Suc_eq_0_disj)
  qed
qed

lemma findIndex_None_iff: "findIndex P xs = None \<longleftrightarrow> (\<forall>x\<in>set xs. \<not> P x)"
  by (induction xs) auto

lemma getPlants_setItem:
  "setItem s STORAGE_KEY (JSON_stringify v) = Inr s' \<Longrightarrow> getPlants s' = v"
  by (auto simp: setItem_def getPlants_def getPlants_try_def getItem_def JSON_stringify_def
      JSON_parse_def text_truthy_def split: if_splits)

lemma getPlants_denied: "denied s \<Longrightarrow> getPlants s = Collection []"
  by (simp add: getPlants_def getPlants_try_def getItem_def)

lemma setItem_succeeds:
  "\<not> denied s \<Longrightarrow> \<not> full s \<Longrightarrow> setItem s k v = Inr (s\<lparr>items := (items s)(k \<mapsto> v)\<rparr>)"
  by (simp add: setItem_def)

lemma findIndex_present_not_denied:
  "getPlants s = Collection ps \<Longrightarrow> findIndex P ps = Some i \<Longrightarrow> \<not> denied s"
  by (auto simp: getPlants_denied)

lemma getPlants_items_upd:
  "\<not> denied s \<Longrightarrow> getPlants (s\<lparr>items := (items s)(STORAGE_KEY \<mapsto> Encoded v)\<rparr>) = v"
  by (simp add: getPlants_def getPlants_try_def getItem_def JSON_parse_def text_truthy_def)

lemma toggleFavoritePlant_present:
  assumes "getPlants s = Collection ps"
    and "findIndex (\<lambda>p. id_plant p = pid) ps = Some i" and "\<not> full s"
  shows "toggleFavoritePlant s pid =
           Inr (Some ((ps ! i)\<lparr>isFavorite := \<not> isFavorite (ps ! i)\<rparr>),
                s\<lparr>items := (items s)(STORAGE_KEY \<mapsto>
                     Encoded (Collection
                       (ps[i := (ps ! i)\<lparr>isFavorite := \<not> isFavorite (ps ! i)\<rparr>])))\<rparr>)"
proof -
  have nd: "\<not> denied s" using assms(1,2) by (rule findIndex_present_not_denied)
  have len: "i < length ps" using assms(2) by (simp add: findIndex_Some_iff)
  show ?thesis
    using assms len nd
    by (simp add: toggleFavoritePlant_def array_method_def Let_def setItem_succeeds
        JSON_stringify_def)
qed

lemma addNoteToPlant_present:
  assumes "getPlants s = Collection ps"
    and "findIndex (\<lambda>p. id_plant p = pid) ps = Some i" and "\<not> full s"
  shows "addNoteToPlant nowMs nowIso s pid noteText =
           Inr (Some ((ps ! i)\<lparr>notes_plant :=
                   Some (\<lparr>id_note = decimal nowMs, date_note = nowIso, text_note = noteText\<rparr>
                         # or_empty (notes_plant (ps ! i)))\<rparr>),
                s\<lparr>items := (items s)(STORAGE_KEY \<mapsto>
                     Encoded (Collection (ps[i := (ps ! i)\<lparr>notes_plant :=
                        Some (\<lparr>id_note = decimal nowMs, date_note = nowIso, text_note = noteText\<rparr>
                              # or_empty (notes_plant (ps ! i)))\<rparr>])))\<rparr>)"
proof -
  have nd: "\<not> denied s" using assms(1,2) by (rule findIndex_present_not_denied)
  show ?thesis
    using assms nd
    by (simp add: addNoteToPlant_def array_method_def Let_def setItem_succeeds
        JSON_stringify_def)
qed

lemma foreign_journal_throws:
  assumes "getPlants s = Foreign v"
  shows "savePlant s plant = Inl (TypeError ''plants is not iterable'')"
    and "\<exists>e. updatePlant s plant = Inl e"
    and "\<exists>e. deletePlant s pid = Inl e"
    and "\<exists>e. addNoteToPlant nowMs nowIso s pid noteText = Inl e"
    and "\<exists>e. toggleFavoritePlant s pid = Inl e"
  using assms
  by (cases v; simp add: savePlant_def updatePlant_def deletePlant_def addNoteToPlant_def
        toggleFavoritePlant_def spread_def array_method_def)+

lemma findIndex_update_same:
  assumes "findIndex P xs = Some i" and "P y"
  shows "findIndex P (xs[i := y]) = Some i"
  using assms by (auto simp: findIndex_Some_iff)

lemma journal0_plants: "getPlants journal0 = Collection [monstera]"
  by (simp add: journal0_def getPlants_def getPlants_try_def getItem_def JSON_parse_def
      text_truthy_def)

lemma journal0_index: "findIndex (\<lambda>p. id_plant p = ''1'') [monstera] = Some 0"
  by (simp add: monstera_def)

section \<open>The journal store: saving and listing\<close>

text \<open>
  C6. For a storage that reads as a collection (stored as one, or read as the empty one
  because the storage is unreadable, empty or unparseable): whenever \<open>savePlant\<close> returns,
  \<open>getPlants\<close> on the new storage is the saved entry followed by the previous collection in
  its previous order; nothing is asked of the entry's id, so saving an id that is already
  there makes a duplicate. The call returns whenever the storage is accessible and not
  full.
\<close>

theorem savePlant_then_getPlants:
  "(getPlants s = Collection ps \<and> savePlant s e = Inr s'
      \<longrightarrow> getPlants s' = Collection (e # ps)) \<and>
   (getPlants s = Collection ps \<and> \<not> denied s \<and> \<not> full s
      \<longrightarrow> (\<exists>s1. savePlant s e = Inr s1 \<and> getPlants s1 = Collection (e # ps)))"
proof (intro conjI impI)
  assume "getPlants s = Collection ps \<and> savePlant s e = Inr s'"
  then have "setItem s STORAGE_KEY (JSON_stringify (Collection (e # ps))) = Inr s'"
    by (auto simp: savePlant_def spread_def Let_def)
  then show "getPlants s' = Collection (e # ps)"
    by (rule getPlants_setItem)
next
  assume ok: "getPlants s = Collection ps \<and> \<not> denied s \<and> \<not> full s"
  then have "savePlant s e =
      Inr (s\<lparr>items := (items s)(STORAGE_KEY \<mapsto> Encoded (Collection (e # ps)))\<rparr>)"
    by (simp add: savePlant_def spread_def Let_def setItem_succeeds JSON_stringify_def)
  with ok show "\<exists>s1. savePlant s e = Inr s1 \<and> getPlants s1 = Collection (e # ps)"
    by (simp add: getPlants_items_upd)
qed

theorem savePlant_then_getPlants_witness:
  "getPlants journal0 = Collection [monstera] \<and>
   savePlant journal0 monstera = Inr journal1 \<and> \<not> denied journal0 \<and> \<not> full journal0 \<and>
   getPlants journal1 = Collection [monstera, monstera] \<and>
   (\<exists>s1. savePlant journal0 monstera = Inr s1 \<and> getPlants s1 = Collection [monstera, monstera])"
proof -
  have run: "savePlant journal0 monstera = Inr journal1"
    by (simp add: savePlant_def spread_def Let_def journal0_plants setItem_def
        JSON_stringify_def)
       (simp add: journal0_def journal1_def)
  have ok: "\<not> denied journal0 \<and> \<not> full journal0"
    by (simp add: journal0_def)
  from savePlant_then_getPlants [of journal0 "[monstera]" monstera journal1]
       journal0_plants run ok
  show ?thesis
    by simp
qed

text \<open>
  C9, as stated, fails: \<open>getPlants\<close> returns whatever the stored text parses to. Stored
  text that has been overwritten with \<open>null\<close> parses, so nothing is thrown and nothing is
  caught, and \<open>getPlants\<close> returns \<open>null\<close>, which is not the empty sequence.
\<close>

theorem getPlants_returns_parsed_null:
  "items journal_null STORAGE_KEY = Some (Encoded (Foreign ForeignNull)) \<and>
   getPlants journal_null = Foreign ForeignNull \<and>
   getPlants journal_null \<noteq> Collection []"
  by (simp add: journal_null_def getPlants_def getPlants_try_def getItem_def JSON_parse_def
      text_truthy_def)

text \<open>
  C9, amended. \<open>getPlants\<close> has no error result, and whatever its \<open>try\<close> block throws ends
  as the empty list. When the storage cannot be read, holds nothing under the key, or
  holds text that does not parse (the empty string included), the result is the empty
  list. Text that parses is returned as parsed, without a check that it is a collection.
\<close>

theorem getPlants_degrades_to_empty:
  "(denied s \<or> items s STORAGE_KEY = None \<or> items s STORAGE_KEY = Some (Malformed t)
      \<longrightarrow> getPlants s = Collection []) \<and>
   (getPlants_try s = Inl e \<longrightarrow> getPlants s = Collection []) \<and>
   (\<not> denied s \<and> items s STORAGE_KEY = Some (Encoded v) \<longrightarrow> getPlants s = v)"
  by (auto simp: getPlants_def getPlants_try_def getItem_def JSON_parse_def text_truthy_def)

theorem getPlants_degrades_to_empty_witness:
  "items journal_corrupt STORAGE_KEY = Some (Malformed ''[{commonName:'') \<and>
   getPlants_try journal_corrupt = Inl (SyntaxError ''[{commonName:'') \<and>
   getPlants journal_corrupt = Collection [] \<and>
   \<not> denied journal1 \<and>
   items journal1 STORAGE_KEY = Some (Encoded (Collection [monstera, monstera])) \<and>
   getPlants journal1 = Collection [monstera, monstera]"
proof -
  have h: "items journal_corrupt STORAGE_KEY = Some (Malformed ''[{commonName:'')"
    by (simp add: journal_corrupt_def)
  have t: "getPlants_try journal_corrupt = Inl (SyntaxError ''[{commonName:'')"
    by (simp add: journal_corrupt_def getPlants_try_def getItem_def JSON_parse_def
        text_truthy_def)
  have k: "\<not> denied journal1 \<and>
           items journal1 STORAGE_KEY = Some (Encoded (Collection [monstera, monstera]))"
    by (simp add: journal1_def)
  from getPlants_degrades_to_empty
         [of journal_corrupt "''[{commonName:''" "SyntaxError ''[{commonName:''"] h t
  have empty: "getPlants journal_corrupt = Collection []"
    by simp
  from getPlants_degrades_to_empty [of journal1 _ _ "Collection [monstera, monstera]"] k
  have kept: "getPlants journal1 = Collection [monstera, monstera]"
    by simp
  from h t empty k kept show ?thesis
    by simp
qed

section \<open>The journal store: favourites and notes\<close>

text \<open>
  C7. For a storage that reads as the collection \<open>ps\<close>, an id in the collection
  (\<open>i\<close> is the index of the first entry with that id) and a storage that accepts the
  write, one call of \<open>toggleFavoritePlant\<close> returns the entry with \<open>isFavorite\<close> negated
  and stores it at \<open>i\<close>; a second call returns the entry with the original value and
  restores the collection. For an id not in the collection the call returns \<open>null\<close> and
  the storage is the one it was given.
\<close>

theorem toggleFavoritePlant_twice:
  "(getPlants s = Collection ps \<and>
    findIndex (\<lambda>p. id_plant p = pid) ps = Some i \<and> \<not> full s \<longrightarrow>
      (\<exists>p1 s1 ps1 p2 s2.
          toggleFavoritePlant s pid = Inr (Some p1, s1) \<and>
          isFavorite p1 = (\<not> isFavorite (ps ! i)) \<and>
          getPlants s1 = Collection ps1 \<and> ps1 ! i = p1 \<and>
          toggleFavoritePlant s1 pid = Inr (Some p2, s2) \<and>
          isFavorite p2 = isFavorite (ps ! i) \<and>
          getPlants s2 = Collection ps)) \<and>
   (getPlants s = Collection ps \<and>
    findIndex (\<lambda>p. id_plant p = pid) ps = None \<longrightarrow>
      toggleFavoritePlant s pid = Inr (None, s))"
proof (intro conjI impI)
  assume "getPlants s = Collection ps \<and> findIndex (\<lambda>p. id_plant p = pid) ps = None"
  then show "toggleFavoritePlant s pid = Inr (None, s)"
    by (simp add: toggleFavoritePlant_def array_method_def)
next
  assume a: "getPlants s = Collection ps \<and>
    findIndex (\<lambda>p. id_plant p = pid) ps = Some i \<and> \<not> full s"
  define p1 where "p1 = (ps ! i)\<lparr>isFavorite := \<not> isFavorite (ps ! i)\<rparr>"
  define s1 where
    "s1 = s\<lparr>items := (items s)(STORAGE_KEY \<mapsto> Encoded (Collection (ps[i := p1])))\<rparr>"
  define p2 where "p2 = p1\<lparr>isFavorite := \<not> isFavorite p1\<rparr>"
  define s2 where
    "s2 = s1\<lparr>items := (items s1)(STORAGE_KEY \<mapsto>
                 Encoded (Collection (ps[i := p1, i := p2])))\<rparr>"
  have plants: "getPlants s = Collection ps"
    and idx: "findIndex (\<lambda>p. id_plant p = pid) ps = Some i" and nf: "\<not> full s"
    using a by simp_all
  have nd: "\<not> denied s"
    using plants idx by (rule findIndex_present_not_denied)
  have len: "i < length ps" and hit: "id_plant (ps ! i) = pid"
    using idx by (simp_all add: findIndex_Some_iff)
  have first: "toggleFavoritePlant s pid = Inr (Some p1, s1)"
    using toggleFavoritePlant_present [OF plants idx nf]
    by (simp add: p1_def s1_def)
  have plants1: "getPlants s1 = Collection (ps[i := p1])"
    using nd by (simp add: s1_def getPlants_items_upd)
  have idx1: "findIndex (\<lambda>p. id_plant p = pid) (ps[i := p1]) = Some i"
    using idx by (rule findIndex_update_same) (simp add: p1_def hit)
  have nf1: "\<not> full s1" and nd1: "\<not> denied s1"
    using nf nd by (simp_all add: s1_def)
  have at1: "ps[i := p1] ! i = p1"
    using len by simp
  have second: "toggleFavoritePlant s1 pid = Inr (Some p2, s2)"
    using toggleFavoritePlant_present [OF plants1 idx1 nf1] len
    by (simp add: p2_def s2_def)
  have restored: "p2 = ps ! i"
    by (simp add: p2_def p1_def)
  have plants2: "getPlants s2 = Collection ps"
    using nd1 len by (simp add: s2_def getPlants_items_upd restored)
  show "\<exists>p1 s1 ps1 p2 s2.
          toggleFavoritePlant s pid = Inr (Some p1, s1) \<and>
          isFavorite p1 = (\<not> isFavorite (ps ! i)) \<and>
          getPlants s1 = Collection ps1 \<and> ps1 ! i = p1 \<and>
          toggleFavoritePlant s1 pid = Inr (Some p2, s2) \<and>
          isFavorite p2 = isFavorite (ps ! i) \<and>
          getPlants s2 = Collection ps"
    using first plants1 at1 second plants2 restored
    by (intro exI [of _ p1] exI [of _ s1] exI [of _ "ps[i := p1]"] exI [of _ p2]
          exI [of _ s2])
       (simp add: p1_def)
qed

theorem toggleFavoritePlant_twice_witness:
  "getPlants journal0 = Collection [monstera] \<and>
   findIndex (\<lambda>p. id_plant p = ''1'') [monstera] = Some 0 \<and> \<not> full journal0 \<and>
   (\<exists>p1 s1 ps1 p2 s2.
       toggleFavoritePlant journal0 ''1'' = Inr (Some p1, s1) \<and> isFavorite p1 \<and>
       getPlants s1 = Collection ps1 \<and> ps1 ! 0 = p1 \<and>
       toggleFavoritePlant s1 ''1'' = Inr (Some p2, s2) \<and> \<not> isFavorite p2 \<and>
       getPlants s2 = Collection [monstera]) \<and>
   findIndex (\<lambda>p. id_plant p = ''7'') [monstera] = None \<and>
   toggleFavoritePlant journal0 ''7'' = Inr (None, journal0)"
proof -
  have absent: "findIndex (\<lambda>p. id_plant p = ''7'') [monstera] = None"
    by (simp add: monstera_def)
  have nf: "\<not> full journal0"
    by (simp add: journal0_def)
  have fav: "\<not> isFavorite monstera"
    by (simp add: monstera_def)
  from toggleFavoritePlant_twice [of journal0 "[monstera]" "''1''" 0]
       journal0_plants journal0_index nf fav
  have twice: "\<exists>p1 s1 ps1 p2 s2.
       toggleFavoritePlant journal0 ''1'' = Inr (Some p1, s1) \<and> isFavorite p1 \<and>
       getPlants s1 = Collection ps1 \<and> ps1 ! 0 = p1 \<and>
       toggleFavoritePlant s1 ''1'' = Inr (Some p2, s2) \<and> \<not> isFavorite p2 \<and>
       getPlants s2 = Collection [monstera]"
    by simp
  from toggleFavoritePlant_twice [of journal0 "[monstera]" "''7''"] journal0_plants absent
  have none: "toggleFavoritePlant journal0 ''7'' = Inr (None, journal0)"
    by simp
  from journal0_plants journal0_index nf twice absent none show ?thesis
    by simp
qed

text \<open>
  C8. For a storage that reads as the collection \<open>ps\<close>, an id in the collection and a
  storage that accepts the write, \<open>addNoteToPlant\<close> returns the entry whose notes are one
  new note, built from the clock and the given text, followed by the notes the entry
  had, in their order. The first note's text is the given text, there is exactly one
  note more, and the entry stays the first one with its id. The code asks nothing of the
  text, so this holds for every text.
\<close>

theorem addNoteToPlant_prepends:
  assumes "getPlants s = Collection ps"
    and "findIndex (\<lambda>p. id_plant p = pid) ps = Some i" and "\<not> full s"
  shows "\<exists>p s' ps'.
          addNoteToPlant nowMs nowIso s pid noteText = Inr (Some p, s') \<and>
          getPlants s' = Collection ps' \<and> ps' ! i = p \<and>
          findIndex (\<lambda>p. id_plant p = pid) ps' = Some i \<and>
          or_empty (notes_plant p) =
            \<lparr>id_note = decimal nowMs, date_note = nowIso, text_note = noteText\<rparr>
              # or_empty (notes_plant (ps ! i)) \<and>
          text_note (or_empty (notes_plant p) ! 0) = noteText \<and>
          length (or_empty (notes_plant p)) = Suc (length (or_empty (notes_plant (ps ! i))))"
proof -
  define n where "n = \<lparr>id_note = decimal nowMs, date_note = nowIso, text_note = noteText\<rparr>"
  define p where "p = (ps ! i)\<lparr>notes_plant := Some (n # or_empty (notes_plant (ps ! i)))\<rparr>"
  define s' where
    "s' = s\<lparr>items := (items s)(STORAGE_KEY \<mapsto> Encoded (Collection (ps[i := p])))\<rparr>"
  have nd: "\<not> denied s"
    using assms(1,2) by (rule findIndex_present_not_denied)
  have len: "i < length ps" and hit: "id_plant (ps ! i) = pid"
    using assms(2) by (simp_all add: findIndex_Some_iff)
  have run: "addNoteToPlant nowMs nowIso s pid noteText = Inr (Some p, s')"
    using addNoteToPlant_present [OF assms, of nowMs nowIso noteText]
    by (simp add: p_def s'_def n_def)
  have plants': "getPlants s' = Collection (ps[i := p])"
    using nd by (simp add: s'_def getPlants_items_upd)
  have idx': "findIndex (\<lambda>p. id_plant p = pid) (ps[i := p]) = Some i"
    using assms(2) by (rule findIndex_update_same) (simp add: p_def hit)
  have at: "ps[i := p] ! i = p"
    using len by simp
  have prepended: "or_empty (notes_plant p) = n # or_empty (notes_plant (ps ! i))"
    by (simp add: p_def or_empty_def)
  show ?thesis
    using run plants' at idx' prepended
    by (intro exI [of _ p] exI [of _ s'] exI [of _ "ps[i := p]"]) (simp add: n_def)
qed

theorem addNoteToPlant_prepends_witness:
  "getPlants journal0 = Collection [monstera] \<and>
   findIndex (\<lambda>p. id_plant p = ''1'') [monstera] = Some 0 \<and> \<not> full journal0 \<and>
   (\<exists>p s' ps'.
       addNoteToPlant 1714557600000 ''2024-05-01T10:00:00.000Z'' journal0 ''1'' ''Watered today''
         = Inr (Some p, s') \<and>
       getPlants s' = Collection ps' \<and> ps' ! 0 = p \<and>
       text_note (or_empty (notes_plant p) ! 0) = ''Watered today'' \<and>
       length (or_empty (notes_plant p)) = 1)"
proof -
  have nf: "\<not> full journal0"
    by (simp add: journal0_def)
  have old: "or_empty (notes_plant monstera) = []"
    by (simp add: monstera_def or_empty_def)
  from addNoteToPlant_prepends
         [OF journal0_plants journal0_index nf, of 1714557600000
             "''2024-05-01T10:00:00.000Z''" "''Watered today''"]
  obtain p s' ps' where
    r: "addNoteToPlant 1714557600000 ''2024-05-01T10:00:00.000Z'' journal0 ''1'' ''Watered today''
          = Inr (Some p, s')"
       "getPlants s' = Collection ps'" "ps' ! 0 = p"
       "text_note (or_empty (notes_plant p) ! 0) = ''Watered today''"
       "length (or_empty (notes_plant p)) = Suc (length (or_empty (notes_plant ([monstera] ! 0))))"
    by blast
  from r(5) have one: "length (or_empty (notes_plant p)) = 1"
    by (simp add: old)
  from journal0_plants journal0_index nf r(1-4) one show ?thesis
    by blast
qed

text \<open>
  C10. For a storage that reads as the collection \<open>ps\<close>, an id in the collection and a
  storage that accepts the write, each of \<open>toggleFavoritePlant\<close> and \<open>addNoteToPlant\<close>
  leaves the collection's length and every entry at another index as they were, and the
  entry at \<open>i\<close> (the first with the id) differs from the old one in one field only:
  putting the old \<open>isFavorite\<close>, respectively the old \<open>notes\<close>, back gives the old entry,
  so id, image, dateAdded and all fields of the analysis are unchanged.
\<close>

theorem store_mutations_frame:
  assumes "getPlants s = Collection ps"
    and "findIndex (\<lambda>p. id_plant p = pid) ps = Some i" and "\<not> full s"
  shows "\<exists>p1 s1 ps1 p2 s2 ps2.
          toggleFavoritePlant s pid = Inr (Some p1, s1) \<and>
          getPlants s1 = Collection ps1 \<and>
          length ps1 = length ps \<and>
          (\<forall>j. j \<noteq> i \<longrightarrow> ps1 ! j = ps ! j) \<and>
          (ps1 ! i)\<lparr>isFavorite := isFavorite (ps ! i)\<rparr> = ps ! i \<and>
          addNoteToPlant nowMs nowIso s pid noteText = Inr (Some p2, s2) \<and>
          getPlants s2 = Collection ps2 \<and>
          length ps2 = length ps \<and>
          (\<forall>j. j \<noteq> i \<longrightarrow> ps2 ! j = ps ! j) \<and>
          (ps2 ! i)\<lparr>notes_plant := notes_plant (ps ! i)\<rparr> = ps ! i"
proof -
  define n where "n = \<lparr>id_note = decimal nowMs, date_note = nowIso, text_note = noteText\<rparr>"
  define p1 where "p1 = (ps ! i)\<lparr>isFavorite := \<not> isFavorite (ps ! i)\<rparr>"
  define s1 where
    "s1 = s\<lparr>items := (items s)(STORAGE_KEY \<mapsto> Encoded (Collection (ps[i := p1])))\<rparr>"
  define p2 where "p2 = (ps ! i)\<lparr>notes_plant := Some (n # or_empty (notes_plant (ps ! i)))\<rparr>"
  define s2 where
    "s2 = s\<lparr>items := (items s)(STORAGE_KEY \<mapsto> Encoded (Collection (ps[i := p2])))\<rparr>"
  have nd: "\<not> denied s"
    using assms(1,2) by (rule findIndex_present_not_denied)
  have len: "i < length ps"
    using assms(2) by (simp add: findIndex_Some_iff)
  have run1: "toggleFavoritePlant s pid = Inr (Some p1, s1)"
    using toggleFavoritePlant_present [OF assms]
    by (simp add: p1_def s1_def)
  have run2: "addNoteToPlant nowMs nowIso s pid noteText = Inr (Some p2, s2)"
    using addNoteToPlant_present [OF assms, of nowMs nowIso noteText]
    by (simp add: p2_def s2_def n_def)
  have plants1: "getPlants s1 = Collection (ps[i := p1])"
    and plants2: "getPlants s2 = Collection (ps[i := p2])"
    using nd by (simp_all add: s1_def s2_def getPlants_items_upd)
  have frame1: "length (ps[i := p1]) = length ps"
      "\<forall>j. j \<noteq> i \<longrightarrow> ps[i := p1] ! j = ps ! j"
      "(ps[i := p1] ! i)\<lparr>isFavorite := isFavorite (ps ! i)\<rparr> = ps ! i"
    using len by (simp_all add: p1_def)
  have frame2: "length (ps[i := p2]) = length ps"
      "\<forall>j. j \<noteq> i \<longrightarrow> ps[i := p2] ! j = ps ! j"
      "(ps[i := p2] ! i)\<lparr>notes_plant := notes_plant (ps ! i)\<rparr> = ps ! i"
    using len by (simp_all add: p2_def)
  show ?thesis
    using run1 run2 plants1 plants2 frame1 frame2
    by (intro exI [of _ p1] exI [of _ s1] exI [of _ "ps[i := p1]"]
          exI [of _ p2] exI [of _ s2] exI [of _ "ps[i := p2]"])
       simp
qed

theorem store_mutations_frame_witness:
  "getPlants journal1 = Collection [monstera, monstera] \<and>
   findIndex (\<lambda>p. id_plant p = ''1'') [monstera, monstera] = Some 0 \<and> \<not> full journal1 \<and>
   (\<exists>p1 s1 ps1 p2 s2 ps2.
       toggleFavoritePlant journal1 ''1'' = Inr (Some p1, s1) \<and>
       getPlants s1 = Collection ps1 \<and>
       length ps1 = 2 \<and> ps1 ! 1 = monstera \<and>
       (ps1 ! 0)\<lparr>isFavorite := False\<rparr> = monstera \<and>
       addNoteToPlant 1714557600000 ''2024-05-01T10:00:00.000Z'' journal1 ''1'' ''Watered today''
         = Inr (Some p2, s2) \<and>
       getPlants s2 = Collection ps2 \<and>
       length ps2 = 2 \<and> ps2 ! 1 = monstera \<and>
       (ps2 ! 0)\<lparr>notes_plant := Some []\<rparr> = monstera)"
proof -
  have plants: "getPlants journal1 = Collection [monstera, monstera]"
    by (simp add: journal1_def getPlants_def getPlants_try_def getItem_def JSON_parse_def
        text_truthy_def)
  have idx: "findIndex (\<lambda>p. id_plant p = ''1'') [monstera, monstera] = Some 0"
    by (simp add: monstera_def)
  have nf: "\<not> full journal1"
    by (simp add: journal1_def)
  have old: "isFavorite monstera = False" "notes_plant monstera = Some []"
    by (simp_all add: monstera_def)
  from store_mutations_frame
         [OF plants idx nf, of 1714557600000 "''2024-05-01T10:00:00.000Z''" "''Watered today''"]
  obtain p1 s1 ps1 p2 s2 ps2 where
    r: "toggleFavoritePlant journal1 ''1'' = Inr (Some p1, s1)"
       "getPlants s1 = Collection ps1"
       "length ps1 = length [monstera, monstera]"
       "\<forall>j. j \<noteq> 0 \<longrightarrow> ps1 ! j = [monstera, monstera] ! j"
       "(ps1 ! 0)\<lparr>isFavorite := isFavorite ([monstera, monstera] ! 0)\<rparr> = [monstera, monstera] ! 0"
       "addNoteToPlant 1714557600000 ''2024-05-01T10:00:00.000Z'' journal1 ''1'' ''Watered today''
          = Inr (Some p2, s2)"
       "getPlants s2 = Collection ps2"
       "length ps2 = length [monstera, monstera]"
       "\<forall>j. j \<noteq> 0 \<longrightarrow> ps2 ! j = [monstera, monstera] ! j"
       "(ps2 ! 0)\<lparr>notes_plant := notes_plant ([monstera, monstera] ! 0)\<rparr> = [monstera, monstera] ! 0"
    by blast
  from r(4) have a1: "ps1 ! 1 = monstera" by simp
  from r(9) have a2: "ps2 ! 1 = monstera" by simp
  from r(3) have l1: "length ps1 = 2" by simp
  from r(8) have l2: "length ps2 = 2" by simp
  from r(5) have f1: "(ps1 ! 0)\<lparr>isFavorite := False\<rparr> = monstera" by (simp add: old)
  from r(10) have f2: "(ps2 ! 0)\<lparr>notes_plant := Some []\<rparr> = monstera" by (simp add: old)
  from r(1,2,6,7) a1 a2 l1 l2 f1 f2
  have "\<exists>p1 s1 ps1 p2 s2 ps2.
       toggleFavoritePlant journal1 ''1'' = Inr (Some p1, s1) \<and>
       getPlants s1 = Collection ps1 \<and>
       length ps1 = 2 \<and> ps1 ! 1 = monstera \<and>
       (ps1 ! 0)\<lparr>isFavorite := False\<rparr> = monstera \<and>
       addNoteToPlant 1714557600000 ''2024-05-01T10:00:00.000Z'' journal1 ''1'' ''Watered today''
         = Inr (Some p2, s2) \<and>
       getPlants s2 = Collection ps2 \<and>
       length ps2 = 2 \<and> ps2 ! 1 = monstera \<and>
       (ps2 ! 0)\<lparr>notes_plant := Some []\<rparr> = monstera"
    by blast
  with plants idx nf show ?thesis
    by simp
qed

section \<open>Where blank note text is rejected\<close>

text \<open>
  C2, as stated, fails: \<open>addNoteToPlant\<close> does not look at the text. On a journal holding
  one entry with id 1 and no notes, the call with the empty text stores a note whose text
  is empty, and the stored collection is no longer the one before the call.
\<close>

theorem addNoteToPlant_stores_empty_note:
  "addNoteToPlant 1714557600000 ''2024-05-01T10:00:00.000Z'' journal0 ''1'' [] =
     Inr (Some (monstera\<lparr>notes_plant := Some [blank_note]\<rparr>),
          journal0\<lparr>items := [STORAGE_KEY \<mapsto>
             Encoded (Collection [monstera\<lparr>notes_plant := Some [blank_note]\<rparr>])]\<rparr>) \<and>
   getPlants (journal0\<lparr>items := [STORAGE_KEY \<mapsto>
             Encoded (Collection [monstera\<lparr>notes_plant := Some [blank_note]\<rparr>])]\<rparr>)
     \<noteq> getPlants journal0 \<and>
   notes_plant monstera = Some [] \<and> text_note blank_note = []"
proof -
  have nf: "\<not> full journal0"
    by (simp add: journal0_def)
  have old: "notes_plant monstera = Some []"
    by (simp add: monstera_def)
  have stamp: "decimal 1714557600000 = ''1714557600000''"
    by (simp add: decimal.simps digit_char_def)
  have run: "addNoteToPlant 1714557600000 ''2024-05-01T10:00:00.000Z'' journal0 ''1'' [] =
     Inr (Some (monstera\<lparr>notes_plant := Some [blank_note]\<rparr>),
          journal0\<lparr>items := [STORAGE_KEY \<mapsto>
             Encoded (Collection [monstera\<lparr>notes_plant := Some [blank_note]\<rparr>])]\<rparr>)"
    using addNoteToPlant_present [OF journal0_plants journal0_index nf, of 1714557600000
        "''2024-05-01T10:00:00.000Z''" "[]"]
    by (simp add: old or_empty_def stamp blank_note_def)
       (simp add: journal0_def)
  have after: "getPlants (journal0\<lparr>items := [STORAGE_KEY \<mapsto>
             Encoded (Collection [monstera\<lparr>notes_plant := Some [blank_note]\<rparr>])]\<rparr>)
                 = Collection [monstera\<lparr>notes_plant := Some [blank_note]\<rparr>]"
    by (simp add: journal0_def getPlants_def getPlants_try_def getItem_def JSON_parse_def
        text_truthy_def)
  have differs: "monstera\<lparr>notes_plant := Some [blank_note]\<rparr> \<noteq> monstera"
  proof
    assume "monstera\<lparr>notes_plant := Some [blank_note]\<rparr> = monstera"
    then have "notes_plant (monstera\<lparr>notes_plant := Some [blank_note]\<rparr>) = notes_plant monstera"
      by simp
    then show False by (simp add: old)
  qed
  have blank: "text_note blank_note = []"
    by (simp add: blank_note_def)
  show ?thesis
    using run differs old blank by (simp add: after journal0_plants)
qed

lemma match_length_ascii_blank:
  "c \<in> {CHR 0x09, CHR 0x0A, CHR 0x0B, CHR 0x0C, CHR 0x0D, CHR 0x20}
   \<Longrightarrow> match_length js_whitespace (c # cs) = 1"
  by (elim insertE emptyE; simp add: js_whitespace_def)

lemma drop_matches_ascii_blank:
  "set s \<subseteq> {CHR 0x09, CHR 0x0A, CHR 0x0B, CHR 0x0C, CHR 0x0D, CHR 0x20}
   \<Longrightarrow> drop_matches js_whitespace 0 s = []"
proof (induction s)
  case Nil
  then show ?case by simp
next
  case (Cons c cs)
  then have "match_length js_whitespace (c # cs) = 1"
    by (intro match_length_ascii_blank) simp
  with Cons show ?case by simp
qed

lemma js_trim_ascii_blank:
  "set s \<subseteq> {CHR 0x09, CHR 0x0A, CHR 0x0B, CHR 0x0C, CHR 0x0D, CHR 0x20} \<Longrightarrow> js_trim s = []"
  by (simp add: js_trim_def drop_matches_ascii_blank)

text \<open>
  C2, amended. The guard is in the caller: \<open>handleAddNote\<close> returns at once, with the
  component's state and the storage as they were, when \<open>trim\<close> leaves nothing of the
  text; that is so, among others, for the empty text and for every text made of tabs,
  line feeds, vertical tabs, form feeds, carriage returns and spaces. The store's
  \<open>addNoteToPlant\<close> asks nothing of the text: for a storage that reads as the collection
  \<open>ps\<close>, an id in the collection and a storage that accepts the write, it prepends a note
  with the text as given.
\<close>

theorem handleAddNote_rejects_blank:
  "(js_trim noteText = [] \<or>
    set noteText \<subseteq> {CHR 0x09, CHR 0x0A, CHR 0x0B, CHR 0x0C, CHR 0x0D, CHR 0x20}
    \<longrightarrow> handleAddNote nowMs nowIso (a, s) noteText = Inr (a, s)) \<and>
   (getPlants s = Collection ps \<and>
    findIndex (\<lambda>p. id_plant p = pid) ps = Some i \<and> \<not> full s
    \<longrightarrow> (\<exists>p s'. addNoteToPlant nowMs nowIso s pid noteText = Inr (Some p, s') \<and>
                or_empty (notes_plant p) =
                  \<lparr>id_note = decimal nowMs, date_note = nowIso, text_note = noteText\<rparr>
                    # or_empty (notes_plant (ps ! i))))"
proof (intro conjI impI)
  assume "js_trim noteText = [] \<or>
    set noteText \<subseteq> {CHR 0x09, CHR 0x0A, CHR 0x0B, CHR 0x0C, CHR 0x0D, CHR 0x20}"
  then have "js_trim noteText = []"
    using js_trim_ascii_blank [of noteText] by blast
  then show "handleAddNote nowMs nowIso (a, s) noteText = Inr (a, s)"
    by (simp add: handleAddNote_def truthy_def split: option.split)
next
  assume "getPlants s = Collection ps \<and>
    findIndex (\<lambda>p. id_plant p = pid) ps = Some i \<and> \<not> full s"
  then show "\<exists>p s'. addNoteToPlant nowMs nowIso s pid noteText = Inr (Some p, s') \<and>
                or_empty (notes_plant p) =
                  \<lparr>id_note = decimal nowMs, date_note = nowIso, text_note = noteText\<rparr>
                    # or_empty (notes_plant (ps ! i))"
    using addNoteToPlant_present [of s ps pid i nowMs nowIso noteText]
    by (simp add: or_empty_def)
qed

theorem handleAddNote_rejects_blank_witness:
  "js_trim ([CHR 0xC2, CHR 0xA0] @ '' '' @ [CHR 0x09, CHR 0x0A]) = [] \<and>
   handleAddNote 1714557600000 ''2024-05-01T10:00:00.000Z'' (app0, journal0)
     ([CHR 0xC2, CHR 0xA0] @ '' '' @ [CHR 0x09, CHR 0x0A]) = Inr (app0, journal0) \<and>
   getPlants journal0 = Collection [monstera] \<and>
   findIndex (\<lambda>p. id_plant p = ''1'') [monstera] = Some 0 \<and> \<not> full journal0 \<and>
   (\<exists>p s'. addNoteToPlant 1714557600000 ''2024-05-01T10:00:00.000Z'' journal0 ''1'' ''  ''
              = Inr (Some p, s') \<and>
            map text_note (or_empty (notes_plant p)) = [''  ''])"
proof -
  have blank: "js_trim ([CHR 0xC2, CHR 0xA0] @ '' '' @ [CHR 0x09, CHR 0x0A]) = []"
    by (simp add: js_trim_def js_whitespace_def)
  have nf: "\<not> full journal0"
    by (simp add: journal0_def)
  have old: "or_empty (notes_plant monstera) = []"
    by (simp add: monstera_def or_empty_def)
  from handleAddNote_rejects_blank
         [of "[CHR 0xC2, CHR 0xA0] @ '' '' @ [CHR 0x09, CHR 0x0A]"
             1714557600000 "''2024-05-01T10:00:00.000Z''" app0 journal0] blank
  have rejected: "handleAddNote 1714557600000 ''2024-05-01T10:00:00.000Z'' (app0, journal0)
     ([CHR 0xC2, CHR 0xA0] @ '' '' @ [CHR 0x09, CHR 0x0A]) = Inr (app0, journal0)"
    by simp
  from handleAddNote_rejects_blank
         [of "''  ''" 1714557600000 "''2024-05-01T10:00:00.000Z''" app0 journal0
             "[monstera]" "''1''" 0]
       journal0_plants journal0_index nf old
  have stored: "\<exists>p s'. addNoteToPlant 1714557600000 ''2024-05-01T10:00:00.000Z'' journal0 ''1'' ''  ''
              = Inr (Some p, s') \<and>
            map text_note (or_empty (notes_plant p)) = [''  '']"
    by simp force
  from blank rejected journal0_plants journal0_index nf stored show ?thesis
    by simp
qed

section \<open>The provider layer: the sentinel\<close>

lemma reject_unknown_throws:
  "js_prop parsed ''commonName'' = Inr (Some (JStr ''Unknown'')) \<or>
   js_prop parsed ''scientificName'' = Inr (Some (JStr ''Unknown''))
   \<Longrightarrow> reject_unknown parsed = Inl (Error NO_PLANT_MESSAGE)"
  by (cases parsed) (auto simp: reject_unknown_def)

lemma reject_unknown_returns:
  "reject_unknown parsed = Inr v \<Longrightarrow>
     v = parsed \<and>
     js_prop v ''commonName'' \<noteq> Inr (Some (JStr ''Unknown'')) \<and>
     js_prop v ''scientificName'' \<noteq> Inr (Some (JStr ''Unknown''))"
  by (auto simp: reject_unknown_def split: sum.splits if_splits)

lemma reject_unknown_passes:
  "parsed \<noteq> JNull \<Longrightarrow>
   js_prop parsed ''commonName'' \<noteq> Inr (Some (JStr ''Unknown'')) \<Longrightarrow>
   js_prop parsed ''scientificName'' \<noteq> Inr (Some (JStr ''Unknown'')) \<Longrightarrow>
   reject_unknown parsed = Inr parsed"
  by (cases parsed) (auto simp: reject_unknown_def)

lemma identifyWithOpenAI_parsed:
  assumes "key_truthy (OPENAI_API_KEY m)"
    and "fetch net (identify_request m img) = Inr response"
    and "ok response"
    and "json_response response = Inr (ChatReply (Encoded parsed # others))"
  shows "snd (identifyWithOpenAI m net img) = reject_unknown parsed"
  using assms
  by (simp add: identifyWithOpenAI_def Let_def first_choice_content_def JSON_parse_def)

lemma identifyWithGemini_parsed:
  assumes "generateContent net (gemini_identify_request img) = Inr response"
    and "text_response response = Some (Encoded parsed)"
  shows "snd (identifyWithGemini m net img) = reject_unknown parsed"
  using assms
  by (simp add: identifyWithGemini_def Let_def JSON_parse_def text_truthy_def)

lemma identifyWithOpenAI_returns:
  "snd (identifyWithOpenAI m net img) = Inr v \<Longrightarrow> \<exists>parsed. reject_unknown parsed = Inr v"
  by (auto simp: identifyWithOpenAI_def Let_def split: if_splits sum.splits)

lemma identifyWithGemini_returns:
  "snd (identifyWithGemini m net img) = Inr v \<Longrightarrow> \<exists>parsed. reject_unknown parsed = Inr v"
  by (auto simp: identifyWithGemini_def Let_def split: if_splits sum.splits option.splits)

lemma module_openai_key: "key_truthy (OPENAI_API_KEY module_openai)"
  by (simp add: module_openai_def load_ai_module_def key_truthy_def truthy_def)

lemma module_gemini_key: "\<not> key_truthy (OPENAI_API_KEY module_gemini)"
  by (simp add: module_gemini_def load_ai_module_def key_truthy_def)

text \<open>
  C1. Whichever backend answered, when the parsed answer has \<open>commonName\<close> equal to the
  string Unknown or \<open>scientificName\<close> equal to the string Unknown, \<open>identifyPlant\<close> throws the
  error with the no-plant message, whatever else the answer holds. So a value that
  \<open>identifyPlant\<close> returns has neither of the two equal to Unknown.
\<close>

theorem identifyPlant_rejects_unknown:
  "(key_truthy (OPENAI_API_KEY m) \<and>
    fetch net (identify_request m img) = Inr response \<and> ok response \<and>
    json_response response = Inr (ChatReply (Encoded parsed # others)) \<and>
    (js_prop parsed ''commonName'' = Inr (Some (JStr ''Unknown'')) \<or>
     js_prop parsed ''scientificName'' = Inr (Some (JStr ''Unknown'')))
    \<longrightarrow> snd (identifyPlant m net img) = Inl (Error NO_PLANT_MESSAGE)) \<and>
   (\<not> key_truthy (OPENAI_API_KEY m) \<and>
    generateContent net (gemini_identify_request img) = Inr gresponse \<and>
    text_response gresponse = Some (Encoded parsed) \<and>
    (js_prop parsed ''commonName'' = Inr (Some (JStr ''Unknown'')) \<or>
     js_prop parsed ''scientificName'' = Inr (Some (JStr ''Unknown'')))
    \<longrightarrow> snd (identifyPlant m net img) = Inl (Error NO_PLANT_MESSAGE)) \<and>
   (snd (identifyPlant m net img) = Inr v
    \<longrightarrow> js_prop v ''commonName'' \<noteq> Inr (Some (JStr ''Unknown'')) \<and>
        js_prop v ''scientificName'' \<noteq> Inr (Some (JStr ''Unknown'')))"
proof (intro conjI impI)
  assume a: "key_truthy (OPENAI_API_KEY m) \<and>
    fetch net (identify_request m img) = Inr response \<and> ok response \<and>
    json_response response = Inr (ChatReply (Encoded parsed # others)) \<and>
    (js_prop parsed ''commonName'' = Inr (Some (JStr ''Unknown'')) \<or>
     js_prop parsed ''scientificName'' = Inr (Some (JStr ''Unknown'')))"
  then have "snd (identifyWithOpenAI m net img) = reject_unknown parsed"
    using identifyWithOpenAI_parsed [of m net img response parsed others] by simp
  with a show "snd (identifyPlant m net img) = Inl (Error NO_PLANT_MESSAGE)"
    by (simp add: identifyPlant_def reject_unknown_throws)
next
  assume a: "\<not> key_truthy (OPENAI_API_KEY m) \<and>
    generateContent net (gemini_identify_request img) = Inr gresponse \<and>
    text_response gresponse = Some (Encoded parsed) \<and>
    (js_prop parsed ''commonName'' = Inr (Some (JStr ''Unknown'')) \<or>
     js_prop parsed ''scientificName'' = Inr (Some (JStr ''Unknown'')))"
  then have "snd (identifyWithGemini m net img) = reject_unknown parsed"
    using identifyWithGemini_parsed [of net img gresponse parsed m] by simp
  with a show "snd (identifyPlant m net img) = Inl (Error NO_PLANT_MESSAGE)"
    by (simp add: identifyPlant_def reject_unknown_throws)
next
  assume r: "snd (identifyPlant m net img) = Inr v"
  then obtain parsed' where "reject_unknown parsed' = Inr v"
    using identifyWithOpenAI_returns [of m net img v] identifyWithGemini_returns [of m net img v]
    by (auto simp: identifyPlant_def split: if_splits)
  then have ok: "js_prop v ''commonName'' \<noteq> Inr (Some (JStr ''Unknown'')) \<and>
        js_prop v ''scientificName'' \<noteq> Inr (Some (JStr ''Unknown''))"
    using reject_unknown_returns by blast
  from ok show "js_prop v ''commonName'' \<noteq> Inr (Some (JStr ''Unknown''))" by simp
  from ok show "js_prop v ''scientificName'' \<noteq> Inr (Some (JStr ''Unknown''))" by simp
qed

theorem identifyPlant_rejects_unknown_witness:
  "snd (identifyPlant module_openai (answering half_unknown_answer) sample_image)
     = Inl (Error NO_PLANT_MESSAGE) \<and>
   snd (identifyPlant module_gemini (answering unknown_answer) sample_image)
     = Inl (Error NO_PLANT_MESSAGE) \<and>
   snd (identifyPlant module_gemini (answering monstera_answer) sample_image)
     = Inr monstera_answer \<and>
   js_prop monstera_answer ''commonName'' = Inr (Some (JStr ''Costilla de Adan'')) \<and>
   js_prop monstera_answer ''scientificName'' \<noteq> Inr (Some (JStr ''Unknown''))"
proof -
  have half: "js_prop half_unknown_answer ''scientificName'' = Inr (Some (JStr ''Unknown''))"
    by (simp add: half_unknown_answer_def)
  have both: "js_prop unknown_answer ''commonName'' = Inr (Some (JStr ''Unknown''))"
    by (simp add: unknown_answer_def)
  have names: "js_prop monstera_answer ''commonName'' = Inr (Some (JStr ''Costilla de Adan''))"
      "js_prop monstera_answer ''scientificName'' = Inr (Some (JStr ''Monstera deliciosa''))"
    by (simp_all add: monstera_answer_def)
  have good: "snd (identifyPlant module_gemini (answering monstera_answer) sample_image)
                = Inr monstera_answer"
    using module_gemini_key names
    by (simp add: identifyPlant_def identifyWithGemini_def Let_def answering_def
        JSON_parse_def text_truthy_def reject_unknown_def)
  from identifyPlant_rejects_unknown
         [of module_openai "answering half_unknown_answer" sample_image
             "\<lparr>ok = True, statusText = ''OK'',
               json_response = Inr (ChatReply [Encoded half_unknown_answer])\<rparr>"
             half_unknown_answer "[]"]
       module_openai_key half
  have first: "snd (identifyPlant module_openai (answering half_unknown_answer) sample_image)
                 = Inl (Error NO_PLANT_MESSAGE)"
    by (simp add: answering_def)
  from identifyPlant_rejects_unknown
         [of module_gemini "answering unknown_answer" sample_image _ unknown_answer _
             "\<lparr>text_response = Some (Encoded unknown_answer), candidates = None\<rparr>"]
       module_gemini_key both
  have second: "snd (identifyPlant module_gemini (answering unknown_answer) sample_image)
                 = Inl (Error NO_PLANT_MESSAGE)"
    by (simp add: answering_def)
  from identifyPlant_rejects_unknown
         [of module_gemini "answering monstera_answer" sample_image _ _ _ _ monstera_answer]
       good
  have third: "js_prop monstera_answer ''scientificName'' \<noteq> Inr (Some (JStr ''Unknown''))"
    by simp
  from first second good names(1) third show ?thesis
    by simp
qed

section \<open>The provider layer: which backend is called\<close>

lemma ai_set_env: "ai (set_env p k v) = ai p"
  by (simp add: set_env_def)

lemma ai_change_env: "ai (change_env changes p) = ai p"
  unfolding change_env_def
  by (induction changes arbitrary: p) (auto simp: ai_set_env)

lemma identifyPlant_calls:
  "map backend_of (fst (identifyPlant m net img)) =
     [if key_truthy (OPENAI_API_KEY m) then OpenAI else Gemini]"
  by (simp add: identifyPlant_def identifyWithOpenAI_def identifyWithGemini_def Let_def)

lemma generatePlantImage_calls:
  "map backend_of (fst (generatePlantImage m net prompt)) =
     [if key_truthy (OPENAI_API_KEY m) then OpenAI else Gemini]"
  by (simp add: generatePlantImage_def generateImageWithOpenAI_def generateImageWithGemini_def
      Let_def)

text \<open>
  C3, as stated, fails: the credential is read when the module is loaded, not when a call
  is made. A process started without the secondary credential, whose environment then
  receives one, still sends an identification to Gemini, while the selection by the
  configuration at the time of the call is OpenAI.
\<close>

theorem selection_ignores_later_configuration:
  "map backend_of (fst (identifyPlant
       (ai (set_env (start_process Map.empty) ''API_KEY_OPENAI'' (Some ''sk-live'')))
       (answering monstera_answer) sample_image)) = [Gemini] \<and>
   spec_selected_backend
       (env_process (set_env (start_process Map.empty) ''API_KEY_OPENAI'' (Some ''sk-live'')))
     = OpenAI"
  by (simp add: identifyPlant_calls ai_set_env start_process_def load_ai_module_def
      key_truthy_def truthy_def spec_selected_backend_def set_env_def)

text \<open>
  C3, amended. Every call of \<open>identifyPlant\<close> and of \<open>generatePlantImage\<close> contacts exactly
  one backend, and it is the one selected by the environment the process was started
  with: whatever changes the environment has seen since, the secondary credential present
  at load means OpenAI, absent or empty at load means Gemini.
\<close>

theorem selection_fixed_at_load:
  "map backend_of (fst (identifyPlant (ai (change_env changes (start_process e))) net img))
     = [spec_selected_backend e] \<and>
   map backend_of (fst (generatePlantImage (ai (change_env changes (start_process e))) net prompt))
     = [spec_selected_backend e]"
  by (simp add: identifyPlant_calls generatePlantImage_calls ai_change_env start_process_def
      load_ai_module_def spec_selected_backend_def)

section \<open>The provider layer: what is returned unchecked\<close>

text \<open>
  C4, as stated, fails: the OpenAI path returns \<open>content as PlantAnalysis\<close>, a cast. An
  answer whose content is the empty object is returned, and it is no \<open>PlantAnalysis\<close>.
\<close>

theorem identifyPlant_returns_shapeless_value:
  "snd (identifyPlant module_openai (answering (JObj [])) sample_image) = Inr (JObj []) \<and>
   \<not> is_PlantAnalysis (JObj [])"
proof -
  have "snd (identifyWithOpenAI module_openai (answering (JObj [])) sample_image)
          = reject_unknown (JObj [])"
    using module_openai_key
      identifyWithOpenAI_parsed
        [of module_openai "answering (JObj [])" sample_image
            "\<lparr>ok = True, statusText = ''OK'', json_response = Inr (ChatReply [Encoded (JObj [])])\<rparr>"
            "JObj []" "[]"]
    by (simp add: answering_def)
  then show ?thesis
    using module_openai_key
    by (simp add: identifyPlant_def reject_unknown_def is_PlantAnalysis_def is_string_def)
qed

text \<open>
  C4, amended. On the OpenAI path the one check made on the parsed content is the
  comparison of \<open>commonName\<close> and \<open>scientificName\<close> with Unknown: every parsed value other
  than \<open>null\<close> that passes it is returned as it is, whatever its shape.
\<close>

theorem identifyWithOpenAI_returns_parsed_as_is:
  assumes "key_truthy (OPENAI_API_KEY m)"
    and "fetch net (identify_request m img) = Inr response"
    and "ok response"
    and "json_response response = Inr (ChatReply (Encoded parsed # others))"
    and "parsed \<noteq> JNull"
    and "js_prop parsed ''commonName'' \<noteq> Inr (Some (JStr ''Unknown''))"
    and "js_prop parsed ''scientificName'' \<noteq> Inr (Some (JStr ''Unknown''))"
  shows "identifyWithOpenAI m net img = ([OpenAICall (identify_request m img)], Inr parsed)"
proof -
  have "snd (identifyWithOpenAI m net img) = Inr parsed"
    using identifyWithOpenAI_parsed [OF assms(1-4)] reject_unknown_passes [OF assms(5-7)]
    by simp
  moreover have "fst (identifyWithOpenAI m net img) = [OpenAICall (identify_request m img)]"
    using assms(1) by (simp add: identifyWithOpenAI_def Let_def)
  ultimately show ?thesis
    by (simp add: prod_eq_iff)
qed

theorem identifyWithOpenAI_returns_parsed_as_is_witness:
  "key_truthy (OPENAI_API_KEY module_openai) \<and>
   identifyWithOpenAI module_openai (answering (JArr [JNum 42])) sample_image
     = ([OpenAICall (identify_request module_openai sample_image)], Inr (JArr [JNum 42])) \<and>
   \<not> is_PlantAnalysis (JArr [JNum 42])"
proof -
  have shape: "\<not> is_PlantAnalysis (JArr [JNum 42])"
    by (simp add: is_PlantAnalysis_def)
  from identifyWithOpenAI_returns_parsed_as_is
         [of module_openai "answering (JArr [JNum 42])" sample_image
             "\<lparr>ok = True, statusText = ''OK'',
               json_response = Inr (ChatReply [Encoded (JArr [JNum 42])])\<rparr>"
             "JArr [JNum 42]" "[]"]
       module_openai_key shape
  show ?thesis
    by (simp add: answering_def)
qed

section \<open>The provider layer: the style suffix\<close>

lemma generatePlantImage_prompts:
  "concat (map dispatched_prompts (fst (generatePlantImage m net prompt))) =
     [if key_truthy (OPENAI_API_KEY m) then prompt @ OPENAI_STYLE else prompt]"
  by (simp add: generatePlantImage_def generateImageWithOpenAI_def generateImageWithGemini_def
      Let_def image_request_for_def gemini_image_request_def JSON_stringify_def)

text \<open>
  C5, as stated, fails: on the Gemini path the prompt goes out as it came in. With the
  Gemini backend selected, the prompt \<open>a red rose\<close> is dispatched without the suffix.
\<close>

theorem generatePlantImage_gemini_sends_prompt_unchanged:
  "concat (map dispatched_prompts (fst (generatePlantImage module_gemini painting ''a red rose'')))
     = [''a red rose''] \<and>
   ''a red rose'' \<noteq> ''a red rose'' @ OPENAI_STYLE"
  using module_gemini_key
  by (simp add: generatePlantImage_prompts OPENAI_STYLE_def)

text \<open>
  C5, amended. With the OpenAI backend selected, \<open>generatePlantImage\<close> dispatches the
  prompt followed by its style suffix; with the Gemini backend selected it dispatches the
  prompt as given. The caller \<open>handleGenerateImage\<close> adds a style suffix of its own to a
  prompt that is not blank before it calls \<open>generatePlantImage\<close>.
\<close>

theorem generatePlantImage_suffix_by_backend:
  "concat (map dispatched_prompts (fst (generatePlantImage m net prompt))) =
     [if key_truthy (OPENAI_API_KEY m) then prompt @ OPENAI_STYLE else prompt] \<and>
   (js_trim (prompt_text a) \<noteq> [] \<longrightarrow>
      fst (handleGenerateImage m net a) =
        fst (generatePlantImage m net (prompt_text a @ CALLER_STYLE)))"
proof (intro conjI impI)
  show "concat (map dispatched_prompts (fst (generatePlantImage m net prompt))) =
     [if key_truthy (OPENAI_API_KEY m) then prompt @ OPENAI_STYLE else prompt]"
    by (rule generatePlantImage_prompts)
next
  assume "js_trim (prompt_text a) \<noteq> []"
  then show "fst (handleGenerateImage m net a) =
        fst (generatePlantImage m net (prompt_text a @ CALLER_STYLE))"
    by (simp add: handleGenerateImage_def truthy_def Let_def split: prod.split)
qed

theorem generatePlantImage_suffix_by_backend_witness:
  "js_trim (prompt_text app0) \<noteq> [] \<and>
   concat (map dispatched_prompts (fst (handleGenerateImage module_openai painting app0)))
     = [''a red rose'' @ CALLER_STYLE @ OPENAI_STYLE] \<and>
   concat (map dispatched_prompts (fst (handleGenerateImage module_gemini painting app0)))
     = [''a red rose'' @ CALLER_STYLE]"
proof -
  have filled: "js_trim (prompt_text app0) \<noteq> []"
    by (simp add: app0_def js_trim_def js_whitespace_def)
  have typed: "prompt_text app0 = ''a red rose''"
    by (simp add: app0_def)
  from generatePlantImage_suffix_by_backend
         [of module_openai painting "''a red rose'' @ CALLER_STYLE" app0]
       generatePlantImage_suffix_by_backend
         [of module_gemini painting "''a red rose'' @ CALLER_STYLE" app0]
       filled module_openai_key module_gemini_key
  show ?thesis
    by (simp add: typed)
qed

end
